theory Spec2Isabelle
  imports Complex_Main "HOL-Library.Multiset"
begin

section \<open>JavaScript numbers\<close>

text \<open>
  The program computes with JavaScript numbers. They are modelled as exact reals
  (rounding is not modelled), extended by the three values a division can produce
  from finite operands: \<open>Infinity\<close>, \<open>-Infinity\<close> and \<open>NaN\<close>. Signed zeros are not
  distinguished. The fields of the input objects are finite numbers.
\<close>

datatype jsnum = Fin real | PosInf | NegInf | NaN

text \<open>The operator \<open>/\<close> on two finite numbers.\<close>

definition js_div :: "real \<Rightarrow> real \<Rightarrow> jsnum" where
  "js_div a b =
     (if b \<noteq> 0 then Fin (a / b)
      else if 0 < a then PosInf
      else if a < 0 then NegInf
      else NaN)"

text \<open>The operators \<open><\<close> and \<open>>\<close>: every comparison with \<open>NaN\<close> is false.\<close>

fun js_lt :: "jsnum \<Rightarrow> jsnum \<Rightarrow> bool" where
  "js_lt (Fin a) (Fin b) = (a < b)"
| "js_lt (Fin a) PosInf = True"
| "js_lt NegInf (Fin b) = True"
| "js_lt NegInf PosInf = True"
| "js_lt _ _ = False"

definition js_gt :: "jsnum \<Rightarrow> jsnum \<Rightarrow> bool" where
  "js_gt a b = js_lt b a"


text \<open>The operators \<open>+\<close>, \<open>-\<close> and \<open>*\<close>.\<close>

fun js_plus :: "jsnum \<Rightarrow> jsnum \<Rightarrow> jsnum" where
  "js_plus (Fin a) (Fin b) = Fin (a + b)"
| "js_plus NaN _ = NaN"
| "js_plus _ NaN = NaN"
| "js_plus PosInf NegInf = NaN"
| "js_plus NegInf PosInf = NaN"
| "js_plus PosInf _ = PosInf"
| "js_plus NegInf _ = NegInf"
| "js_plus _ PosInf = PosInf"
| "js_plus _ NegInf = NegInf"

fun js_neg :: "jsnum \<Rightarrow> jsnum" where
  "js_neg (Fin a) = Fin (- a)"
| "js_neg PosInf = NegInf"
| "js_neg NegInf = PosInf"
| "js_neg NaN = NaN"

definition js_minus :: "jsnum \<Rightarrow> jsnum \<Rightarrow> jsnum" where
  "js_minus a b = js_plus a (js_neg b)"

fun js_times :: "jsnum \<Rightarrow> jsnum \<Rightarrow> jsnum" where
  "js_times (Fin a) (Fin b) = Fin (a * b)"
| "js_times NaN _ = NaN"
| "js_times _ NaN = NaN"
| "js_times PosInf (Fin b) = (if 0 < b then PosInf else if b < 0 then NegInf else NaN)"
| "js_times NegInf (Fin b) = (if 0 < b then NegInf else if b < 0 then PosInf else NaN)"
| "js_times (Fin a) PosInf = (if 0 < a then PosInf else if a < 0 then NegInf else NaN)"
| "js_times (Fin a) NegInf = (if 0 < a then NegInf else if a < 0 then PosInf else NaN)"
| "js_times PosInf PosInf = PosInf"
| "js_times NegInf NegInf = PosInf"
| "js_times PosInf NegInf = NegInf"
| "js_times NegInf PosInf = NegInf"

text \<open>\<open>v || 0\<close> on a number: \<open>0\<close> and \<open>NaN\<close> are falsy.\<close>

definition js_or_zero :: "jsnum \<Rightarrow> jsnum" where
  "js_or_zero v = (if v = NaN \<or> v = Fin 0 then Fin 0 else v)"

text \<open>
  \<open>String.prototype.toLowerCase\<close>, on the ASCII letters (the class names of the
  detectors are ASCII).
\<close>

definition lower_char :: "char \<Rightarrow> char" where
  "lower_char c =
     (case map_of (zip ''ABCDEFGHIJKLMNOPQRSTUVWXYZ'' ''abcdefghijklmnopqrstuvwxyz'') c of
        Some d \<Rightarrow> d
      | None \<Rightarrow> c)"

definition toLowerCase :: "string \<Rightarrow> string" where
  "toLowerCase s = map lower_char s"

section \<open>Detected objects (pen-selector.tsx)\<close>

text \<open>
  The interface \<open>DetectedObject\<close>. Its fields \<open>x\<close> and \<open>y\<close> are named \<open>xpos\<close> and
  \<open>ypos\<close> here. The optional fields are options; \<open>yoloEquivalent\<close> and
  \<open>segmentationNote\<close> are the two fields that fusion adds to a Google detection.
\<close>

text \<open>
  The value of \<open>yoloEquivalent\<close>: a class name, or a property that the lookup in the
  object literal \<open>mappings\<close> inherits from \<open>Object.prototype\<close>, given by its name.
\<close>

datatype yolo_class = YoloClass string | InheritedProperty string

record DetectedObject =
  name :: string
  confidence :: real
  xpos :: real
  ypos :: real
  width :: real
  height :: real
  refinedPath :: "string option"
  segmentation :: "real list option"
  source :: "string option"
  canSegment :: "bool option"
  yoloEquivalent :: "yolo_class option"
  segmentationNote :: "string option"

text \<open>A detection as a detector returns it, with the required fields only.\<close>

definition detection :: "string \<Rightarrow> real \<Rightarrow> real \<Rightarrow> real \<Rightarrow> real \<Rightarrow> real \<Rightarrow> DetectedObject" where
  "detection n c x y w h =
     \<lparr>name = n, confidence = c, xpos = x, ypos = y, width = w, height = h,
      refinedPath = None, segmentation = None, source = None, canSegment = None,
      yoloEquivalent = None, segmentationNote = None\<rparr>"

subsection \<open>objectsOverlap\<close>

text \<open>The quotient \<open>overlapArea / unionArea\<close> that \<open>objectsOverlap\<close> computes.\<close>

definition overlapRatio :: "DetectedObject \<Rightarrow> DetectedObject \<Rightarrow> jsnum" where
  "overlapRatio obj1 obj2 =
     (let obj1Right = xpos obj1 + width obj1;
          obj1Bottom = ypos obj1 + height obj1;
          obj2Right = xpos obj2 + width obj2;
          obj2Bottom = ypos obj2 + height obj2;
          overlapX = max 0 (min obj1Right obj2Right - max (xpos obj1) (xpos obj2));
          overlapY = max 0 (min obj1Bottom obj2Bottom - max (ypos obj1) (ypos obj2));
          overlapArea = overlapX * overlapY;
          obj1Area = width obj1 * height obj1;
          obj2Area = width obj2 * height obj2;
          unionArea = obj1Area + obj2Area - overlapArea
      in js_div overlapArea unionArea)"

definition objectsOverlap :: "DetectedObject \<Rightarrow> DetectedObject \<Rightarrow> real \<Rightarrow> bool" where
  "objectsOverlap obj1 obj2 threshold = js_gt (overlapRatio obj1 obj2) (Fin threshold)"

subsection \<open>The detector's capability table (YOLO11APIDetector)\<close>

definition supportedClasses :: "string list" where
  "supportedClasses =
    [''person'', ''bicycle'', ''car'', ''motorcycle'', ''airplane'', ''bus'', ''train'',
     ''truck'', ''boat'', ''traffic light'', ''fire hydrant'', ''stop sign'',
     ''parking meter'', ''bench'', ''bird'', ''cat'', ''dog'', ''horse'', ''sheep'', ''cow'',
     ''elephant'', ''bear'', ''zebra'', ''giraffe'', ''backpack'', ''umbrella'', ''handbag'',
     ''tie'', ''suitcase'', ''frisbee'', ''skis'', ''snowboard'', ''sports ball'', ''kite'',
     ''baseball bat'', ''baseball glove'', ''skateboard'', ''surfboard'', ''tennis racket'',
     ''bottle'', ''wine glass'', ''cup'', ''fork'', ''knife'', ''spoon'', ''bowl'', ''banana'',
     ''apple'', ''sandwich'', ''orange'', ''broccoli'', ''carrot'', ''hot dog'', ''pizza'',
     ''donut'', ''cake'', ''chair'', ''couch'', ''potted plant'', ''bed'', ''dining table'',
     ''toilet'', ''tv'', ''laptop'', ''mouse'', ''remote'', ''keyboard'', ''cell phone'',
     ''microwave'', ''oven'', ''toaster'', ''sink'', ''refrigerator'', ''book'', ''clock'',
     ''vase'', ''scissors'', ''teddy bear'', ''hair drier'', ''toothbrush'']"

text \<open>
  The instance \<open>yolo11APIDetector\<close> is built with \<open>useCustomModel = false\<close>, so
  its method \<open>canSegment\<close> (here \<open>canSegmentName\<close>, since the field of a detection
  has that name) is membership in \<open>supportedClasses\<close>.
\<close>

definition canSegmentName :: "string \<Rightarrow> bool" where
  "canSegmentName objectName = (toLowerCase objectName \<in> set supportedClasses)"

definition mappings :: "(string \<times> string) list" where
  "mappings =
    [(''sofa'', ''couch''), (''table'', ''dining table''), (''television'', ''tv''),
     (''plant'', ''potted plant''), (''lamp'', ''tv''), (''lighting'', ''tv''),
     (''picture frame'', ''book''), (''cabinetry'', ''refrigerator'')]"

text \<open>
  \<open>mappings[name] || null\<close>: \<open>mappings\<close> is an object literal, so the lookup also
  finds the properties inherited from \<open>Object.prototype\<close>. The name is in lower case;
  of the inherited names only \<open>constructor\<close> and \<open>__proto__\<close> are. Both values are
  objects, hence truthy.
\<close>

definition mapToYOLOClass :: "string \<Rightarrow> yolo_class option" where
  "mapToYOLOClass objectName =
     (let lowered = toLowerCase objectName
      in if lowered \<in> set supportedClasses then Some (YoloClass lowered)
         else
           (case map_of mappings lowered of
              Some c \<Rightarrow> Some (YoloClass c)
            | None \<Rightarrow>
                if lowered \<in> set [''constructor'', ''__proto__'']
                then Some (InheritedProperty lowered) else None))"

text \<open>The value as a template literal renders it.\<close>

definition renderClass :: "yolo_class option \<Rightarrow> string" where
  "renderClass v =
     (case v of
        None \<Rightarrow> ''null''
      | Some (YoloClass c) \<Rightarrow> c
      | Some (InheritedProperty p) \<Rightarrow>
          if p = ''constructor'' then ''function Object() { [native code] }''
          else ''[object Object]'')"

subsection \<open>Hybrid detection (recognitionMutation.mutationFn, step 3)\<close>

definition CONFIDENCE_THRESHOLD :: real where
  "CONFIDENCE_THRESHOLD = 0.35"

definition highConfidenceYolo :: "DetectedObject list \<Rightarrow> DetectedObject list" where
  "highConfidenceYolo yoloObjects =
     filter (\<lambda>obj. CONFIDENCE_THRESHOLD \<le> confidence obj) yoloObjects"

definition tagYolo :: "DetectedObject \<Rightarrow> DetectedObject" where
  "tagYolo obj = obj\<lparr>source := Some ''YOLO11'', canSegment := Some True\<rparr>"

definition hasOverlapWithYolo :: "DetectedObject list \<Rightarrow> DetectedObject \<Rightarrow> bool" where
  "hasOverlapWithYolo yoloObjects googleObj =
     list_ex (\<lambda>yoloObj.
        objectsOverlap googleObj yoloObj 0.3 \<or>
        (toLowerCase (name googleObj) = toLowerCase (name yoloObj) \<and>
         objectsOverlap googleObj yoloObj 0.1)) yoloObjects"

definition tagGoogle :: "DetectedObject \<Rightarrow> DetectedObject" where
  "tagGoogle googleObj =
     (let canSeg = canSegmentName (name googleObj);
          yoloMappedClass = mapToYOLOClass (name googleObj)
      in googleObj\<lparr>
           confidence := (if confidence googleObj = 0 then 0.6 else confidence googleObj),
           source := Some ''Google Vision'',
           canSegment := Some canSeg,
           yoloEquivalent := yoloMappedClass,
           segmentationNote := Some
             (if canSeg
              then ''Can be re-detected with YOLO as '' @ [CHR 0x27] @
                   renderClass yoloMappedClass @
                   [CHR 0x27] @ '' for segmentation''
              else ''No YOLO equivalent - bounding box only'')\<rparr>)"

text \<open>The loop over \<open>googleObjects\<close>, pushing onto \<open>hybridObjects\<close>.\<close>

fun processGoogle ::
  "DetectedObject list \<Rightarrow> DetectedObject list \<Rightarrow> DetectedObject list \<Rightarrow> DetectedObject list"
where
  "processGoogle yoloObjects [] hybridObjects = hybridObjects"
| "processGoogle yoloObjects (googleObj # rest) hybridObjects =
     (if \<not> hasOverlapWithYolo yoloObjects googleObj
      then processGoogle yoloObjects rest (hybridObjects @ [tagGoogle googleObj])
      else processGoogle yoloObjects rest hybridObjects)"

definition hybridDetection :: "DetectedObject list \<Rightarrow> DetectedObject list \<Rightarrow> DetectedObject list" where
  "hybridDetection yoloObjects googleObjects =
     processGoogle yoloObjects googleObjects (map tagYolo (highConfidenceYolo yoloObjects))"

section \<open>Intention resolver (pen-selector.tsx)\<close>

text \<open>A point \<open>{x, y}\<close> of the drawing path is a pair.\<close>

type_synonym point = "real \<times> real"

subsection \<open>isPointInPath\<close>

text \<open>
  The loop \<open>for (i = 0, j = path.length - 1; i < path.length; j = i++)\<close> visits each
  vertex \<open>path[i]\<close> together with its cyclic predecessor \<open>path[j]\<close>. The division is
  evaluated only when the two ordinates differ.
\<close>

definition isPointInPath :: "real \<Rightarrow> real \<Rightarrow> point list \<Rightarrow> bool" where
  "isPointInPath x y path =
     (if length path < 3 then False
      else foldl (\<lambda>inside (pi, pj).
                   if ((snd pi > y) \<noteq> (snd pj > y)) \<and>
                      x < (fst pj - fst pi) * (y - snd pi) / (snd pj - snd pi) + fst pi
                   then \<not> inside else inside)
             False (zip path (last path # butlast path)))"

subsection \<open>getPathBounds\<close>

record Bounds =
  b_x :: real
  b_y :: real
  b_width :: real
  b_height :: real

definition getPathBounds :: "point list \<Rightarrow> Bounds" where
  "getPathBounds path =
     (if length path = 0 then \<lparr>b_x = 0, b_y = 0, b_width = 0, b_height = 0\<rparr>
      else
        let xs = map fst path;
            ys = map snd path;
            minX = Min (set xs);
            maxX = Max (set xs);
            minY = Min (set ys);
            maxY = Max (set ys)
        in \<lparr>b_x = minX, b_y = minY, b_width = maxX - minX, b_height = maxY - minY\<rparr>)"

subsection \<open>calculateEnclosureScore and calculateContainmentScore\<close>

definition calculateEnclosureScore :: "point list \<Rightarrow> DetectedObject \<Rightarrow> real" where
  "calculateEnclosureScore path obj =
     (let samplePoints = (15::nat);
          enclosedPoints =
            length (filter
              (\<lambda>(i, j).
                 isPointInPath
                   (xpos obj + (width obj * real i) / real (samplePoints - 1))
                   (ypos obj + (height obj * real j) / real (samplePoints - 1)) path)
              (List.product [0..<samplePoints] [0..<samplePoints]))
      in real enclosedPoints / real (samplePoints * samplePoints))"

definition calculateContainmentScore :: "point list \<Rightarrow> DetectedObject \<Rightarrow> real" where
  "calculateContainmentScore path obj =
     (let objCorners =
            [(xpos obj, ypos obj),
             (xpos obj + width obj, ypos obj),
             (xpos obj + width obj, ypos obj + height obj),
             (xpos obj, ypos obj + height obj)];
          containedCorners = filter (\<lambda>corner. isPointInPath (fst corner) (snd corner) path) objCorners
      in real (length containedCorners) / real (length objCorners))"

subsection \<open>analyzeUserIntention\<close>

text \<open>
  The record \<open>factors\<close>; its fields \<open>size\<close> and \<open>confidence\<close> are named
  \<open>size_factor\<close> and \<open>confidence_factor\<close> here. Only the size factor is a quotient
  whose divisor can be zero.
\<close>

record Factors =
  enclosure :: real
  distance :: real
  size_factor :: jsnum
  confidence_factor :: real
  containment :: real

record ScoredObject =
  object :: DetectedObject
  score :: jsnum
  factors :: Factors

definition scoreObject :: "point list \<Rightarrow> DetectedObject \<Rightarrow> ScoredObject" where
  "scoreObject path obj =
     (let pathBounds = getPathBounds path;
          pathCenter = (b_x pathBounds + b_width pathBounds / 2,
                        b_y pathBounds + b_height pathBounds / 2);
          pathArea = b_width pathBounds * b_height pathBounds;
          objCenter = (xpos obj + width obj / 2, ypos obj + height obj / 2);
          objArea = width obj * height obj;
          enclosureScore = calculateEnclosureScore path obj;
          distance = sqrt ((fst pathCenter - fst objCenter)\<^sup>2 +
                           (snd pathCenter - snd objCenter)\<^sup>2);
          maxDistance = sqrt ((b_width pathBounds)\<^sup>2 + (b_height pathBounds)\<^sup>2);
          distanceScore = 1 - distance / max maxDistance 1;
          sizeRatio = js_div (min pathArea objArea) (max pathArea objArea);
          sizeScore = sizeRatio;
          confidenceScore = confidence obj;
          containmentScore = calculateContainmentScore path obj;
          totalScore =
            js_plus
              (js_plus
                 (js_plus (Fin (enclosureScore * 0.3 + distanceScore * 0.2))
                          (js_times sizeScore (Fin 0.15)))
                 (Fin (confidenceScore * 0.15)))
              (Fin (containmentScore * 0.2))
      in \<lparr>object = obj, score = totalScore,
          factors = \<lparr>enclosure = enclosureScore, distance = distanceScore,
                     size_factor = sizeScore, confidence_factor = confidenceScore,
                     containment = containmentScore\<rparr>\<rparr>)"

text \<open>
  \<open>scoredObjects.sort((a, b) => b.score - a.score)\<close>. The order that
  \<open>Array.prototype.sort\<close> produces is fixed by the language only when the comparator
  is consistent, which it is when no score is \<open>NaN\<close>; otherwise it is the engine's.
  The sort is modelled on the engine V8 (\<open>array-sort.tq\<close>), as it sorts an array of
  fewer than 64 elements: the comparator's result counts as \<open>0\<close> when it is \<open>NaN\<close>;
  \<open>CountAndMakeRun\<close> finds the run at the start of the array, reversing it when it is
  strictly descending for the comparator; \<open>BinaryInsertionSort\<close> then inserts each
  later element into the sorted prefix at the point a binary search finds. (A longer
  array is cut into such runs, which are merged; with a consistent comparator the
  result is the same stable sort.)
\<close>


definition compareScore :: "ScoredObject \<Rightarrow> ScoredObject \<Rightarrow> jsnum" where
  "compareScore a b = js_minus (score b) (score a)"

text \<open>\<open>order < 0\<close> for \<open>order = Compare(x, y)\<close>.\<close>

definition orderNegative :: "ScoredObject \<Rightarrow> ScoredObject \<Rightarrow> bool" where
  "orderNegative x y = js_lt (compareScore x y) (Fin 0)"

text \<open>
  The loop of \<open>CountAndMakeRun\<close> from the third element on: the number of further
  elements that continue the run.
\<close>

fun extendRun :: "bool \<Rightarrow> ScoredObject \<Rightarrow> ScoredObject list \<Rightarrow> nat" where
  "extendRun isDescending previousElement [] = 0"
| "extendRun isDescending previousElement (currentElement # rest) =
     (if (if isDescending then \<not> orderNegative currentElement previousElement
          else orderNegative currentElement previousElement)
      then 0
      else Suc (extendRun isDescending currentElement rest))"

text \<open>The length of the run and the array after the run has been put in order.\<close>

fun countAndMakeRun :: "ScoredObject list \<Rightarrow> nat \<times> ScoredObject list" where
  "countAndMakeRun (elementHigh # elementLow # rest) =
     (let isDescending = orderNegative elementLow elementHigh;
          runLength = 2 + extendRun isDescending elementLow rest;
          workArray = elementHigh # elementLow # rest
      in (runLength,
          if isDescending then rev (take runLength workArray) @ drop runLength workArray
          else workArray))"
| "countAndMakeRun workArray = (length workArray, workArray)"

text \<open>The binary search of \<open>BinaryInsertionSort\<close> for the place of \<open>pivot\<close>.\<close>

function findInsertionPoint :: "ScoredObject \<Rightarrow> ScoredObject list \<Rightarrow> nat \<Rightarrow> nat \<Rightarrow> nat" where
  "findInsertionPoint pivot workArray left right =
     (if left < right
      then
        (let mid = left + (right - left) div 2
         in if orderNegative pivot (workArray ! mid)
            then findInsertionPoint pivot workArray left mid
            else findInsertionPoint pivot workArray (mid + 1) right)
      else left)"
  by pat_completeness auto
termination
  by (relation "measure (\<lambda>(pivot, workArray, left, right). right - left)") auto

declare findInsertionPoint.simps [simp del]

text \<open>
  \<open>BinaryInsertionSort\<close>: the array is the sorted prefix followed by the elements still
  to be inserted.
\<close>

fun binaryInsertionSort :: "ScoredObject list \<Rightarrow> ScoredObject list \<Rightarrow> ScoredObject list" where
  "binaryInsertionSort sortedPrefix [] = sortedPrefix"
| "binaryInsertionSort sortedPrefix (pivot # rest) =
     (let left = findInsertionPoint pivot sortedPrefix 0 (length sortedPrefix)
      in binaryInsertionSort (take left sortedPrefix @ [pivot] @ drop left sortedPrefix) rest)"

definition sortScored :: "ScoredObject list \<Rightarrow> ScoredObject list" where
  "sortScored xs =
     (if length xs < 2 then xs
      else
        let run = countAndMakeRun xs;
            runLength = fst run;
            workArray = snd run
        in binaryInsertionSort (take runLength workArray) (drop runLength workArray))"

definition meaningfulObjects :: "point list \<Rightarrow> DetectedObject list \<Rightarrow> ScoredObject list" where
  "meaningfulObjects path objects =
     filter (\<lambda>item. js_gt (score item) (Fin 0.3))
       (sortScored (map (scoreObject path) objects))"

definition analyzeUserIntention :: "point list \<Rightarrow> DetectedObject list \<Rightarrow> DetectedObject list" where
  "analyzeUserIntention path objects =
     (if length path = 0 then objects
      else
        let meaningful = meaningfulObjects path objects
        in if length meaningful = 0 then []
           else
             let topScore = score (meaningful ! 0);
                 secondScore =
                   (if 1 < length meaningful then js_or_zero (score (meaningful ! 1))
                    else Fin 0)
             in if js_gt (js_minus topScore secondScore) (Fin 0.2)
                then [object (meaningful ! 0)]
                else map object (take (min 3 (length meaningful)) meaningful))"

subsection \<open>A scenario: a path drawn around a chair\<close>

definition tightPath :: "point list" where
  "tightPath = [(89, 92), (161, 92), (161, 188), (89, 188)]"

definition chairObj :: DetectedObject where
  "chairObj = detection ''chair'' 0.9 100 100 50 80"


definition farObj :: DetectedObject where
  "farObj = detection ''sofa'' 0.9 244 292 50 80"

subsection \<open>A scenario: a horizontal stroke and a candidate without area\<close>







section \<open>Segmentation masks and cropping (server/grok-image-service.ts)\<close>

text \<open>
  The SVG markup that the service builds with template literals is modelled as a tree:
  an element has a tag, its attributes in the order written, and its children. The
  rendering of a number by a template literal is the parameter \<open>num\<close>. Reading an array
  past its end gives \<open>undefined\<close>.
\<close>

datatype svg = Element string "(string \<times> string) list" "svg list"

fun svg_tag :: "svg \<Rightarrow> string" where
  "svg_tag (Element t as cs) = t"

fun svg_attributes :: "svg \<Rightarrow> (string \<times> string) list" where
  "svg_attributes (Element t as cs) = as"

fun svg_children :: "svg \<Rightarrow> svg list" where
  "svg_children (Element t as cs) = cs"

fun join :: "string \<Rightarrow> string list \<Rightarrow> string" where
  "join sep [] = []"
| "join sep [p] = p"
| "join sep (p # q # ps) = p @ sep @ join sep (q # ps)"

subsection \<open>createSegmentationMaskSVG\<close>

fun maskPoints :: "(real \<Rightarrow> string) \<Rightarrow> real list \<Rightarrow> string list" where
  "maskPoints num [] = []"
| "maskPoints num [a] = [num a @ '','' @ ''undefined'']"
| "maskPoints num (a # b # rest) = (num a @ '','' @ num b) # maskPoints num rest"

definition createSegmentationMaskSVG :: "(real \<Rightarrow> string) \<Rightarrow> real list \<Rightarrow> real \<Rightarrow> real \<Rightarrow> svg" where
  "createSegmentationMaskSVG num segmentationCoords w h =
     (let points = maskPoints num segmentationCoords;
          pathData = ''M'' @ join '' L'' points @ '' Z''
      in Element ''svg''
           [(''width'', num w), (''height'', num h), (''xmlns'', ''http://www.w3.org/2000/svg'')]
           [Element ''path'' [(''d'', pathData), (''fill'', ''white''), (''stroke'', ''none'')] []])"

subsection \<open>The mask of extractObjectUsingSegmentation\<close>

definition extractionMaskSVG :: "(real \<Rightarrow> string) \<Rightarrow> string \<Rightarrow> real \<Rightarrow> real \<Rightarrow> svg" where
  "extractionMaskSVG num segmentationPath w h =
     Element ''svg''
       [(''width'', num w), (''height'', num h), (''xmlns'', ''http://www.w3.org/2000/svg'')]
       [Element ''path''
          [(''d'', segmentationPath), (''fill'', ''white''), (''fill-rule'', ''evenodd'')] []]"

subsection \<open>cropObjectFromImage\<close>

text \<open>\<open>Math.min\<close>, \<open>Math.max\<close>, \<open>Math.floor\<close> and \<open>Math.ceil\<close>.\<close>

definition js_min :: "jsnum \<Rightarrow> jsnum \<Rightarrow> jsnum" where
  "js_min a b = (if a = NaN \<or> b = NaN then NaN else if js_lt b a then b else a)"

definition js_max :: "jsnum \<Rightarrow> jsnum \<Rightarrow> jsnum" where
  "js_max a b = (if a = NaN \<or> b = NaN then NaN else if js_lt a b then b else a)"

definition Math_min :: "jsnum list \<Rightarrow> jsnum" where
  "Math_min vs = foldr js_min vs PosInf"

definition Math_max :: "jsnum list \<Rightarrow> jsnum" where
  "Math_max vs = foldr js_max vs NegInf"

fun Math_floor :: "jsnum \<Rightarrow> jsnum" where
  "Math_floor (Fin a) = Fin (of_int \<lfloor>a\<rfloor>)"
| "Math_floor v = v"

fun Math_ceil :: "jsnum \<Rightarrow> jsnum" where
  "Math_ceil (Fin a) = Fin (of_int \<lceil>a\<rceil>)"
| "Math_ceil v = v"

text \<open>
  The loop \<open>for (i = 0; i < points.length; i += 2)\<close> pushes \<open>points[i]\<close> and
  \<open>points[i + 1]\<close>; the latter is \<open>undefined\<close>, as a number \<open>NaN\<close>, at the end of a
  list of odd length.
\<close>

fun xCoords :: "real list \<Rightarrow> jsnum list" where
  "xCoords [] = []"
| "xCoords [a] = [Fin a]"
| "xCoords (a # b # rest) = Fin a # xCoords rest"

fun yCoords :: "real list \<Rightarrow> jsnum list" where
  "yCoords [] = []"
| "yCoords [a] = [NaN]"
| "yCoords (a # b # rest) = Fin b # yCoords rest"

text \<open>The region passed to \<open>extract\<close>, also returned as \<open>boundingBox\<close>.\<close>

record CropBox =
  left :: jsnum
  top :: jsnum
  cropWidth :: jsnum
  cropHeight :: jsnum

definition cropRect :: "nat \<Rightarrow> nat \<Rightarrow> real list \<Rightarrow> CropBox" where
  "cropRect imgWidth imgHeight points =
     (let minX = js_max (Fin 0) (Math_floor (Math_min (xCoords points)));
          maxX = js_min (Fin (real imgWidth)) (Math_ceil (Math_max (xCoords points)));
          minY = js_max (Fin 0) (Math_floor (Math_min (yCoords points)));
          maxY = js_min (Fin (real imgHeight)) (Math_ceil (Math_max (yCoords points)))
      in \<lparr>left = minX, top = minY,
          cropWidth = js_minus maxX minX, cropHeight = js_minus maxY minY\<rparr>)"



record CropResult =
  crop_success :: bool
  croppedImageBase64 :: "string option"
  crop_boundingBox :: "CropBox option"
  crop_error :: "string option"





section \<open>Replacement workflows\<close>

text \<open>
  A string in a condition is falsy when it is \<open>undefined\<close> or empty. A template literal
  renders \<open>undefined\<close> as the word.
\<close>

definition falsy :: "string option \<Rightarrow> bool" where
  "falsy v = (v = None \<or> v = Some [])"

definition render :: "string option \<Rightarrow> string" where
  "render v = (case v of None \<Rightarrow> ''undefined'' | Some t \<Rightarrow> t)"

subsection \<open>GrokReplacementService.replaceObjectStepByStep (client)\<close>

record CropObjectRequest =
  req_imageUrl :: string
  req_segmentationMask :: "real list"

record GenerateReplacementRequest =
  croppedObjectImage :: string
  replacementPrompt :: string
  originalImageUrl :: "string option"

record GenerateResult =
  gen_success :: bool
  generatedImageBase64 :: "string option"
  gen_revisedPrompt :: "string option"
  gen_error :: "string option"

record CompleteReplacementResult =
  success :: bool
  finalImageBase64 :: "string option"
  croppedObject :: "string option"
  generatedReplacement :: "string option"
  boundingBox :: "CropBox option"
  revisedPrompt :: "string option"
  error :: "string option"

text \<open>
  \<open>cropObject\<close> and \<open>generateReplacement\<close> are requests to the server; each catches
  its own errors and returns a result object. They are parameters here. The optional
  callback \<open>onProgress\<close> is absent.
\<close>

definition replaceObjectStepByStep ::
  "(CropObjectRequest \<Rightarrow> CropResult) \<Rightarrow> (GenerateReplacementRequest \<Rightarrow> GenerateResult) \<Rightarrow>
   string \<Rightarrow> real list \<Rightarrow> string \<Rightarrow> CompleteReplacementResult"
where
  "replaceObjectStepByStep cropObject generateReplacement imageUrl segmentationMask prompt =
     (let cropResult = cropObject \<lparr>req_imageUrl = imageUrl, req_segmentationMask = segmentationMask\<rparr>
      in if \<not> crop_success cropResult \<or> falsy (croppedImageBase64 cropResult)
         then \<lparr>success = False, finalImageBase64 = None, croppedObject = None,
               generatedReplacement = None, boundingBox = None, revisedPrompt = None,
               error = Some (''Cropping failed: '' @ render (crop_error cropResult))\<rparr>
         else
           let generateResult = generateReplacement
                 \<lparr>croppedObjectImage = render (croppedImageBase64 cropResult),
                  replacementPrompt = prompt, originalImageUrl = Some imageUrl\<rparr>
           in if \<not> gen_success generateResult \<or> falsy (generatedImageBase64 generateResult)
              then \<lparr>success = False, finalImageBase64 = None,
                    croppedObject = croppedImageBase64 cropResult,
                    generatedReplacement = None, boundingBox = None, revisedPrompt = None,
                    error = Some (''Generation failed: '' @ render (gen_error generateResult))\<rparr>
              else \<lparr>success = True, finalImageBase64 = None,
                    croppedObject = croppedImageBase64 cropResult,
                    generatedReplacement = generatedImageBase64 generateResult,
                    boundingBox = crop_boundingBox cropResult,
                    revisedPrompt = gen_revisedPrompt generateResult,
                    error = None\<rparr>)"

subsection \<open>GrokImageService.replaceObjectWithSceneDiff (server/grok-image-service.ts)\<close>

record SceneRequest =
  scene_replacementPrompt :: string
  originalImageBase64 :: string
  objectName :: string
  scene_croppedObjectImage :: string
  scene_originalImageUrl :: string

record ExtractResult =
  extract_success :: bool
  extractedObjectBase64 :: "string option"
  extract_error :: "string option"

record SceneDiffResult =
  sd_success :: bool
  sd_finalImageBase64 :: "string option"
  originalScene :: "string option"
  generatedScene :: "string option"
  extractedDifferences :: "string option"
  sd_revisedPrompt :: "string option"
  sd_error :: "string option"

text \<open>
  The calls of the workflow: \<open>fetch\<close> of the original image (its bytes in base64, or
  a thrown error); \<open>metadata\<close> of the image library on these bytes; the methods
  \<open>generateSceneReplacement\<close> and \<open>extractObjectFromGenerated\<close>, which return result
  objects; and the pipeline of the image library that masks the generated scene, cuts
  the object out of the original and lays the one over the other.
\<close>

record SceneCalls =
  fetchOriginal :: "string \<Rightarrow> string + string"
  imageMetadata :: "string \<Rightarrow> string + (nat option \<times> nat option)"
  generateSceneReplacement :: "SceneRequest \<Rightarrow> GenerateResult"
  extractObjectFromGenerated :: "string \<Rightarrow> real list \<Rightarrow> ExtractResult"
  compositeReplacement :: "string \<Rightarrow> svg \<Rightarrow> nat \<Rightarrow> nat \<Rightarrow> string \<Rightarrow> string + string"

definition sceneFailure :: "string \<Rightarrow> SceneDiffResult" where
  "sceneFailure msg =
     \<lparr>sd_success = False, sd_finalImageBase64 = None, originalScene = None,
      generatedScene = None, extractedDifferences = None, sd_revisedPrompt = None,
      sd_error = Some msg\<rparr>"

text \<open>\<open>metadata.width || 800\<close>: \<open>undefined\<close> and \<open>0\<close> give the default.\<close>

definition dimensionOr :: "nat option \<Rightarrow> nat \<Rightarrow> nat" where
  "dimensionOr d dflt = (case d of None \<Rightarrow> dflt | Some n \<Rightarrow> if n = 0 then dflt else n)"

text \<open>\<open>segmentationMask.map((coord, index) => index % 2 === 0 ? coord * scaleX : coord * scaleY)\<close>.\<close>

definition scaleMask :: "real \<Rightarrow> real \<Rightarrow> real list \<Rightarrow> real list" where
  "scaleMask scaleX scaleY segmentationMask =
     map (\<lambda>(index, coord). if index mod 2 = 0 then coord * scaleX else coord * scaleY)
       (zip [0..<length segmentationMask] segmentationMask)"

definition replaceObjectWithSceneDiff ::
  "SceneCalls \<Rightarrow> (real \<Rightarrow> string) \<Rightarrow> string \<Rightarrow> real list \<Rightarrow> string \<Rightarrow> string \<Rightarrow> SceneDiffResult"
where
  "replaceObjectWithSceneDiff calls num imageUrl segmentationMask prompt objName =
     (case fetchOriginal calls imageUrl of
        Inl err \<Rightarrow> sceneFailure err
      | Inr originalBase64 \<Rightarrow>
     (case imageMetadata calls originalBase64 of
        Inl err \<Rightarrow> sceneFailure err
      | Inr originalMetadata \<Rightarrow>
          let originalWidth = dimensionOr (fst originalMetadata) 800;
              originalHeight = dimensionOr (snd originalMetadata) 600;
              sceneResult = generateSceneReplacement calls
                \<lparr>scene_replacementPrompt = prompt, originalImageBase64 = originalBase64,
                 objectName = objName, scene_croppedObjectImage = [],
                 scene_originalImageUrl = imageUrl\<rparr>
          in if \<not> gen_success sceneResult \<or> falsy (generatedImageBase64 sceneResult)
             then sceneFailure (''Scene generation failed: '' @ render (gen_error sceneResult))
             else
               let scaleX = 1024 / real originalWidth;
                   scaleY = 1024 / real originalHeight;
                   scaledSegmentationMask = scaleMask scaleX scaleY segmentationMask;
                   extractResult = extractObjectFromGenerated calls
                     (render (generatedImageBase64 sceneResult)) scaledSegmentationMask
               in if \<not> extract_success extractResult \<or>
                     falsy (extractedObjectBase64 extractResult)
                  then sceneFailure
                         (''Object extraction failed: '' @ render (extract_error extractResult))
                  else
                    (case imageMetadata calls originalBase64 of
                       Inl err \<Rightarrow> sceneFailure err
                     | Inr finalMetadata \<Rightarrow>
                         let finalWidth = dimensionOr (fst finalMetadata) 800;
                             finalHeight = dimensionOr (snd finalMetadata) 600;
                             originalMaskSvg = createSegmentationMaskSVG num segmentationMask
                               (real finalWidth) (real finalHeight)
                         in (case compositeReplacement calls originalBase64 originalMaskSvg
                                   finalWidth finalHeight
                                   (render (generatedImageBase64 sceneResult)) of
                               Inl err \<Rightarrow> sceneFailure err
                             | Inr finalImage \<Rightarrow>
                                 \<lparr>sd_success = True, sd_finalImageBase64 = Some finalImage,
                                  originalScene = Some originalBase64,
                                  generatedScene = generatedImageBase64 sceneResult,
                                  extractedDifferences = extractedObjectBase64 extractResult,
                                  sd_revisedPrompt = gen_revisedPrompt sceneResult,
                                  sd_error = None\<rparr>))))"

subsection \<open>replaceObjectWithSceneDiff in the bundled build (dist, part 007)\<close>

text \<open>
  The bundle holds an earlier copy of the workflow: it reads no metadata, extracts
  the differences of the two images and lays them over the resized original.
\<close>

record DiffResult =
  diff_success :: bool
  differenceImageBase64 :: "string option"
  diff_error :: "string option"

record BundleCalls =
  bundle_fetchOriginal :: "string \<Rightarrow> string + string"
  bundle_generateSceneReplacement :: "SceneRequest \<Rightarrow> GenerateResult"
  extractImageDifferences :: "string \<Rightarrow> string \<Rightarrow> real list \<Rightarrow> DiffResult"
  compositeFinal :: "string \<Rightarrow> string \<Rightarrow> string + string"

definition replaceObjectWithSceneDiff_bundle ::
  "BundleCalls \<Rightarrow> string \<Rightarrow> real list \<Rightarrow> string \<Rightarrow> string \<Rightarrow> SceneDiffResult"
where
  "replaceObjectWithSceneDiff_bundle calls imageUrl segmentationMask prompt objName =
     (case bundle_fetchOriginal calls imageUrl of
        Inl err \<Rightarrow> sceneFailure err
      | Inr originalBase64 \<Rightarrow>
          let sceneResult = bundle_generateSceneReplacement calls
                \<lparr>scene_replacementPrompt = prompt, originalImageBase64 = originalBase64,
                 objectName = objName, scene_croppedObjectImage = [],
                 scene_originalImageUrl = imageUrl\<rparr>
          in if \<not> gen_success sceneResult \<or> falsy (generatedImageBase64 sceneResult)
             then sceneFailure (''Scene generation failed: '' @ render (gen_error sceneResult))
             else
               let diffResult = extractImageDifferences calls originalBase64
                     (render (generatedImageBase64 sceneResult)) segmentationMask
               in if \<not> diff_success diffResult \<or> falsy (differenceImageBase64 diffResult)
                  then sceneFailure
                         (''Difference extraction failed: '' @ render (diff_error diffResult))
                  else
                    (case compositeFinal calls originalBase64
                            (render (differenceImageBase64 diffResult)) of
                       Inl err \<Rightarrow> sceneFailure err
                     | Inr finalImage \<Rightarrow>
                         \<lparr>sd_success = True, sd_finalImageBase64 = Some finalImage,
                          originalScene = Some originalBase64,
                          generatedScene = generatedImageBase64 sceneResult,
                          extractedDifferences = differenceImageBase64 diffResult,
                          sd_revisedPrompt = gen_revisedPrompt sceneResult,
                          sd_error = None\<rparr>))"

subsection \<open>replaceObjectTwoStep (server/openai-service.ts)\<close>

text \<open>
  \<open>openai.images.generate\<close> is a parameter: for the prompt of the request it throws an
  error, given by its message, or returns a response, of which the program reads
  \<open>data?.[0]?.url\<close> (\<open>None\<close> when it is missing). A \<open>throw\<close> inside a \<open>try\<close> block is
  caught by the block's own handler, which throws a new error around the message.
\<close>

type_synonym image_generator = "string \<Rightarrow> string + string option"

record ObjectModificationRequest =
  mod_objectName :: string
  mod_originalImageUrl :: string
  modificationPrompt :: string
  objectBounds :: Bounds
  objectMask :: "string option"

record RemovalResult =
  removal_success :: bool
  cleanedImageUrl :: string
  removal_method :: "string option"

record TwoStepResult =
  two_success :: bool
  two_originalImageUrl :: string
  two_cleanedImageUrl :: string
  finalImageUrl :: string
  two_modificationPrompt :: string

definition removalPrompt :: string where
  "removalPrompt =
     ''interior room with clean background, no objects, seamless walls and flooring, professional photography''"

definition removeObjectWithInpainting ::
  "image_generator \<Rightarrow> string \<Rightarrow> Bounds \<Rightarrow> string option \<Rightarrow> string + RemovalResult"
where
  "removeObjectWithInpainting generate imageUrl bounds maskUrl =
     (case generate removalPrompt of
        Inl err \<Rightarrow> Inl (''Object removal failed: '' @ err)
      | Inr url \<Rightarrow>
          if falsy url
          then Inl (''Object removal failed: '' @ ''No cleaned image URL returned from DALL-E 3'')
          else Inr \<lparr>removal_success = True, cleanedImageUrl = render url,
                    removal_method = Some ''OpenAI Inpainting''\<rparr>)"

definition enhancedPrompt :: "string \<Rightarrow> string \<Rightarrow> string" where
  "enhancedPrompt objName prompt =
     ''A photorealistic '' @ objName @ '' that is '' @ prompt @
     ''. Professional interior design photography, well-lit, modern style, placed in a room setting. High quality, detailed, realistic materials and textures.''"

text \<open>The result is \<open>compositeImageUrl\<close>.\<close>

definition generateAndPlaceObject ::
  "image_generator \<Rightarrow> string \<Rightarrow> string \<Rightarrow> string \<Rightarrow> Bounds \<Rightarrow> string + string"
where
  "generateAndPlaceObject generate cleaned objName prompt targetBounds =
     (case generate (enhancedPrompt objName prompt) of
        Inl err \<Rightarrow> Inl (''Object generation failed: '' @ err)
      | Inr url \<Rightarrow>
          if falsy url
          then Inl (''Object generation failed: '' @ ''No object image URL returned from DALL-E 3'')
          else Inr (render url))"

definition replaceObjectTwoStep ::
  "image_generator \<Rightarrow> ObjectModificationRequest \<Rightarrow> string + TwoStepResult"
where
  "replaceObjectTwoStep generate request =
     (case removeObjectWithInpainting generate (mod_originalImageUrl request)
             (objectBounds request) (objectMask request) of
        Inl err \<Rightarrow> Inl (''Object replacement failed: '' @ err)
      | Inr removalResult \<Rightarrow>
          if \<not> removal_success removalResult
          then Inl (''Object replacement failed: '' @ ''Object removal failed'')
          else
            (case generateAndPlaceObject generate (cleanedImageUrl removalResult)
                    (mod_objectName request) (modificationPrompt request) (objectBounds request) of
               Inl err \<Rightarrow> Inl (''Object replacement failed: '' @ err)
             | Inr compositeImageUrl \<Rightarrow>
                 Inr \<lparr>two_success = True,
                      two_originalImageUrl = mod_originalImageUrl request,
                      two_cleanedImageUrl = cleanedImageUrl removalResult,
                      finalImageUrl = compositeImageUrl,
                      two_modificationPrompt = modificationPrompt request\<rparr>))"

subsection \<open>The route POST /api/objects/:objectId/replace (server/routes.ts)\<close>

text \<open>
  \<open>analyzeObjectForModification\<close> asks the chat model for a prompt: the parameter
  \<open>chat\<close> throws or returns the content of the first choice (\<open>None\<close> for \<open>null\<close>); the
  function falls back to the user's prompt.
\<close>

definition analyzeObjectForModification ::
  "(string \<Rightarrow> string \<Rightarrow> string + string option) \<Rightarrow> string \<Rightarrow> string \<Rightarrow> string"
where
  "analyzeObjectForModification chat objName userPrompt =
     (case chat objName userPrompt of
        Inl err \<Rightarrow> userPrompt
      | Inr content \<Rightarrow> if falsy content then userPrompt else render content)"

text \<open>
  The request body, and the answers of the route: status 400 with a message; status
  200 with the replacement (its temporary id, its time stamp and the constant
  \<open>processingSteps\<close> are left out); status 500 with \<open>message\<close>, \<open>error\<close> and
  \<open>details\<close>. The argument \<open>objectId\<close> is the parsed parameter of the path.
\<close>

record ReplaceBody =
  body_modificationPrompt :: "string option"
  body_objectName :: "string option"
  body_originalImageUrl :: "string option"
  body_objectBounds :: "Bounds option"
  body_objectMask :: "string option"

record Replacement =
  rep_objectId :: int
  rep_originalImageUrl :: string
  rep_cleanedImageUrl :: string
  rep_finalImageUrl :: string
  rep_modificationPrompt :: string
  rep_method :: string

datatype replace_response =
    BadRequest string
  | Replaced Replacement
  | ServerError string string string

definition replaceRoute ::
  "(string \<Rightarrow> string \<Rightarrow> string + string option) \<Rightarrow> image_generator \<Rightarrow> int \<Rightarrow> ReplaceBody \<Rightarrow>
   replace_response"
where
  "replaceRoute chat generate objectId body =
     (if falsy (body_modificationPrompt body) \<or> falsy (body_objectName body) \<or>
         falsy (body_originalImageUrl body)
      then BadRequest
             ''Missing required fields: modificationPrompt, objectName, originalImageUrl''
      else
        let prompt = analyzeObjectForModification chat
              (render (body_objectName body)) (render (body_modificationPrompt body))
        in (case replaceObjectTwoStep generate
                  \<lparr>mod_objectName = render (body_objectName body),
                   mod_originalImageUrl = render (body_originalImageUrl body),
                   modificationPrompt = prompt,
                   objectBounds =
                     (case body_objectBounds body of
                        None \<Rightarrow> \<lparr>b_x = 0, b_y = 0, b_width = 100, b_height = 100\<rparr>
                      | Some bounds \<Rightarrow> bounds),
                   objectMask = body_objectMask body\<rparr> of
              Inl err \<Rightarrow>
                ServerError ''Failed to replace object'' err ''Two-step replacement process failed''
            | Inr result \<Rightarrow>
                Replaced
                  \<lparr>rep_objectId = objectId,
                   rep_originalImageUrl = two_originalImageUrl result,
                   rep_cleanedImageUrl = two_cleanedImageUrl result,
                   rep_finalImageUrl = finalImageUrl result,
                   rep_modificationPrompt = prompt,
                   rep_method = ''two-step-replacement''\<rparr>))"

subsection \<open>A scenario: the generator fails\<close>

definition cropSucceeds :: "CropObjectRequest \<Rightarrow> CropResult" where
  "cropSucceeds request =
     \<lparr>crop_success = True, croppedImageBase64 = Some ''iVBORw0KGgo='',
      crop_boundingBox = None, crop_error = None\<rparr>"

definition generationFails :: "'r \<Rightarrow> GenerateResult" where
  "generationFails request =
     \<lparr>gen_success = False, generatedImageBase64 = None, gen_revisedPrompt = None,
      gen_error = Some ''No image generated''\<rparr>"

definition failingSceneCalls :: SceneCalls where
  "failingSceneCalls =
     \<lparr>fetchOriginal = (\<lambda>url. Inr ''/9j/4AAQSkZJRg==''),
      imageMetadata = (\<lambda>bytes. Inr (Some 800, Some 600)),
      generateSceneReplacement = generationFails,
      extractObjectFromGenerated = (\<lambda>generated segMask.
         \<lparr>extract_success = False, extractedObjectBase64 = None, extract_error = None\<rparr>),
      compositeReplacement = (\<lambda>original maskSvg w h generated. Inl ''unused'')\<rparr>"

definition failingBundleCalls :: BundleCalls where
  "failingBundleCalls =
     \<lparr>bundle_fetchOriginal = (\<lambda>url. Inr ''/9j/4AAQSkZJRg==''),
      bundle_generateSceneReplacement = generationFails,
      extractImageDifferences = (\<lambda>original generated segMask.
         \<lparr>diff_success = False, differenceImageBase64 = None, diff_error = None\<rparr>),
      compositeFinal = (\<lambda>original difference. Inl ''unused'')\<rparr>"

text \<open>
  An image generator that paints the cleaned room and refuses every other prompt, a
  chat model that returns no content, and the body of a request.
\<close>

definition removalOnlyGenerator :: image_generator where
  "removalOnlyGenerator prompt =
     (if prompt = removalPrompt then Inr (Some ''https://images.example/cleaned.png'')
      else Inl ''Billing hard limit has been reached'')"

definition silentChat :: "string \<Rightarrow> string \<Rightarrow> string + string option" where
  "silentChat objName userPrompt = Inr None"

definition chairBody :: ReplaceBody where
  "chairBody =
     \<lparr>body_modificationPrompt = Some ''a red armchair'', body_objectName = Some ''chair'',
      body_originalImageUrl = Some ''https://images.example/room.jpg'',
      body_objectBounds = Some \<lparr>b_x = 100, b_y = 100, b_width = 50, b_height = 80\<rparr>,
      body_objectMask = None\<rparr>"

definition chairRequest :: ObjectModificationRequest where
  "chairRequest =
     \<lparr>mod_objectName = ''chair'', mod_originalImageUrl = ''https://images.example/room.jpg'',
      modificationPrompt = ''a red armchair'',
      objectBounds = \<lparr>b_x = 100, b_y = 100, b_width = 50, b_height = 80\<rparr>,
      objectMask = None\<rparr>"

section \<open>Properties of fusion\<close>

lemma processGoogle_eq:
  "processGoogle ys gs acc =
     acc @ map tagGoogle (filter (\<lambda>g. \<not> hasOverlapWithYolo ys g) gs)"
  by (induction gs arbitrary: acc) simp_all

lemma source_tagYolo: "source (tagYolo obj) = Some ''YOLO11''"
  by (simp add: tagYolo_def)

lemma source_tagGoogle: "source (tagGoogle obj) = Some ''Google Vision''"
  by (simp add: tagGoogle_def Let_def)

lemma hybridDetection_eq:
  "hybridDetection ys gs =
     map tagYolo (highConfidenceYolo ys) @
     map tagGoogle (filter (\<lambda>g. \<not> hasOverlapWithYolo ys g) gs)"
  by (simp add: hybridDetection_def processGoogle_eq)

lemma filter_source_YOLO:
  "filter (\<lambda>h. source h = Some ''YOLO11'') (hybridDetection ys gs) =
     map tagYolo (highConfidenceYolo ys)"
  by (simp add: hybridDetection_eq filter_map o_def source_tagYolo source_tagGoogle)

lemma filter_source_Google:
  "filter (\<lambda>h. source h = Some ''Google Vision'') (hybridDetection ys gs) =
     map tagGoogle (filter (\<lambda>g. \<not> hasOverlapWithYolo ys g) gs)"
  by (simp add: hybridDetection_eq filter_map o_def source_tagYolo source_tagGoogle)

lemma hasOverlapWithYolo_iff:
  "hasOverlapWithYolo ys g \<longleftrightarrow>
     (\<exists>y \<in> set ys. js_gt (overlapRatio g y) (Fin 0.3) \<or>
        (toLowerCase (name g) = toLowerCase (name y) \<and> js_gt (overlapRatio g y) (Fin 0.1)))"
  by (simp add: hasOverlapWithYolo_def objectsOverlap_def list_ex_iff)

lemma overlapRatio_sym: "overlapRatio a b = overlapRatio b a"
  by (simp add: overlapRatio_def Let_def min.commute max.commute add.commute)

lemmas fusion_defs = hybridDetection_eq highConfidenceYolo_def CONFIDENCE_THRESHOLD_def
  hasOverlapWithYolo_def objectsOverlap_def overlapRatio_def js_div_def js_gt_def
  detection_def Let_def toLowerCase_def lower_char_def

text \<open>
  C9. The overlap computation is symmetric: the quotient of the intersection by the
  union that \<open>objectsOverlap\<close> computes is the same for \<open>(a, b)\<close> and \<open>(b, a)\<close>, so the
  test gives the same answer at every threshold.
\<close>

theorem objectsOverlap_symmetric:
  "overlapRatio a b = overlapRatio b a \<and> objectsOverlap a b t = objectsOverlap b a t"
  by (simp add: objectsOverlap_def overlapRatio_sym)

theorem objectsOverlap_symmetric_witness:
  "objectsOverlap (detection ''table'' 0.9 0 0 6 10) (detection ''table'' 0.5 0 0 10 10) 0.3 \<and>
   objectsOverlap (detection ''table'' 0.5 0 0 10 10) (detection ''table'' 0.9 0 0 6 10) 0.3"
  using objectsOverlap_symmetric
    [of "detection ''table'' 0.9 0 0 6 10" "detection ''table'' 0.5 0 0 10 10" "0.3"]
  by (simp add: fusion_defs)

text \<open>
  C6, as amended. The detections of the polygon-capable detector that fusion accepts
  (its outputs tagged \<open>YOLO11\<close>) are exactly those whose confidence is at least
  \<open>0.35\<close>, in their order; a confidence of exactly \<open>0.35\<close> is accepted.
\<close>

theorem accepted_iff_confidence_ge:
  "filter (\<lambda>h. source h = Some ''YOLO11'') (hybridDetection ys gs) =
     map tagYolo (filter (\<lambda>obj. 0.35 \<le> confidence obj) ys)"
  by (simp add: filter_source_YOLO highConfidenceYolo_def CONFIDENCE_THRESHOLD_def)

theorem accepted_iff_confidence_ge_witness:
  "filter (\<lambda>h. source h = Some ''YOLO11'')
     (hybridDetection [detection ''chair'' 0.35 0 0 10 10, detection ''vase'' 0.2 50 50 5 5] []) =
   [tagYolo (detection ''chair'' 0.35 0 0 10 10)]"
  using accepted_iff_confidence_ge
    [of "[detection ''chair'' 0.35 0 0 10 10, detection ''vase'' 0.2 50 50 5 5]" "[]"]
  by (simp add: detection_def)

text \<open>
  The claim C6 as stated fails at the boundary: a detection whose confidence is
  exactly \<open>0.35\<close> does not strictly exceed the threshold, and is accepted.
\<close>

theorem acceptance_boundary_counterexample:
  "\<not> 0.35 < confidence (detection ''chair'' 0.35 0 0 10 10) \<and>
   hybridDetection [detection ''chair'' 0.35 0 0 10 10] [] =
     [tagYolo (detection ''chair'' 0.35 0 0 10 10)]"
  by (simp add: fusion_defs)

text \<open>
  C1, as amended. Take a detection of the bounding-box-only detector such that every
  detection of the polygon-capable detector that overlaps it above the thresholds was
  accepted (its confidence is at least \<open>0.35\<close>). It is discarded if and only if
  some accepted detection has with it an intersection over union strictly greater than
  \<open>0.3\<close>, or strictly greater than \<open>0.1\<close> while the two names are equal up to letter
  case. In particular, when the polygon-capable detector reports one object with
  confidence at least \<open>0.35\<close> and the other detector reports a box whose intersection
  over union with it exceeds \<open>0.3\<close>, fusion keeps the polygon-capable detection only.
\<close>

theorem google_discarded_iff:
  "(\<exists>keep.
      filter (\<lambda>h. source h = Some ''Google Vision'') (hybridDetection ys gs) =
        map tagGoogle (filter keep gs) \<and>
      (\<forall>g. (\<forall>y \<in> set ys.
                js_gt (overlapRatio g y) (Fin 0.3) \<or>
                (toLowerCase (name g) = toLowerCase (name y) \<and>
                 js_gt (overlapRatio g y) (Fin 0.1)) \<longrightarrow>
                0.35 \<le> confidence y) \<longrightarrow>
           (keep g \<longleftrightarrow>
              \<not> (\<exists>y \<in> set ys. 0.35 \<le> confidence y \<and>
                   (js_gt (overlapRatio g y) (Fin 0.3) \<or>
                    (toLowerCase (name g) = toLowerCase (name y) \<and>
                     js_gt (overlapRatio g y) (Fin 0.1)))))))
   \<and> (0.35 \<le> confidence y \<and> overlapRatio g y = Fin r \<and> 0.3 < r \<longrightarrow>
        hybridDetection [y] [g] = [tagYolo y])"
proof
  show "\<exists>keep.
      filter (\<lambda>h. source h = Some ''Google Vision'') (hybridDetection ys gs) =
        map tagGoogle (filter keep gs) \<and>
      (\<forall>g. (\<forall>y \<in> set ys.
                js_gt (overlapRatio g y) (Fin 0.3) \<or>
                (toLowerCase (name g) = toLowerCase (name y) \<and>
                 js_gt (overlapRatio g y) (Fin 0.1)) \<longrightarrow>
                0.35 \<le> confidence y) \<longrightarrow>
           (keep g \<longleftrightarrow>
              \<not> (\<exists>y \<in> set ys. 0.35 \<le> confidence y \<and>
                   (js_gt (overlapRatio g y) (Fin 0.3) \<or>
                    (toLowerCase (name g) = toLowerCase (name y) \<and>
                     js_gt (overlapRatio g y) (Fin 0.1))))))"
  proof (intro exI conjI allI impI)
    show "filter (\<lambda>h. source h = Some ''Google Vision'') (hybridDetection ys gs) =
        map tagGoogle (filter (\<lambda>g. \<not> hasOverlapWithYolo ys g) gs)"
      by (rule filter_source_Google)
  next
    fix g
    assume "\<forall>y \<in> set ys.
                js_gt (overlapRatio g y) (Fin 0.3) \<or>
                (toLowerCase (name g) = toLowerCase (name y) \<and>
                 js_gt (overlapRatio g y) (Fin 0.1)) \<longrightarrow>
                0.35 \<le> confidence y"
    then show "(\<not> hasOverlapWithYolo ys g) \<longleftrightarrow>
              \<not> (\<exists>y \<in> set ys. 0.35 \<le> confidence y \<and>
                   (js_gt (overlapRatio g y) (Fin 0.3) \<or>
                    (toLowerCase (name g) = toLowerCase (name y) \<and>
                     js_gt (overlapRatio g y) (Fin 0.1))))"
      unfolding hasOverlapWithYolo_iff by blast
  qed
  show "0.35 \<le> confidence y \<and> overlapRatio g y = Fin r \<and> 0.3 < r \<longrightarrow>
        hybridDetection [y] [g] = [tagYolo y]"
    by (simp add: hybridDetection_eq highConfidenceYolo_def CONFIDENCE_THRESHOLD_def
        hasOverlapWithYolo_def objectsOverlap_def js_gt_def)
qed

text \<open>
  The scenario of the specification: both detectors report the table, the boxes
  overlapping at \<open>0.6\<close>, confidence \<open>0.5\<close> against \<open>0.9\<close>.
\<close>

theorem google_discarded_iff_witness:
  "overlapRatio (detection ''table'' 0.9 0 0 6 10) (detection ''table'' 0.5 0 0 10 10) = Fin 0.6 \<and>
   hybridDetection [detection ''table'' 0.5 0 0 10 10] [detection ''table'' 0.9 0 0 6 10] =
     [tagYolo (detection ''table'' 0.5 0 0 10 10)] \<and>
   filter (\<lambda>h. source h = Some ''Google Vision'')
     (hybridDetection [detection ''table'' 0.5 0 0 10 10] [detection ''table'' 0.9 0 0 6 10]) = []"
proof -
  have r: "overlapRatio (detection ''table'' 0.9 0 0 6 10) (detection ''table'' 0.5 0 0 10 10) =
      Fin 0.6"
    by (simp add: fusion_defs)
  have c: "0.35 \<le> confidence (detection ''table'' 0.5 0 0 10 10)"
    by (simp add: detection_def)
  from google_discarded_iff
    [of "[detection ''table'' 0.5 0 0 10 10]" "[detection ''table'' 0.9 0 0 6 10]"
        "detection ''table'' 0.5 0 0 10 10" "detection ''table'' 0.9 0 0 6 10" "0.6"]
  have "hybridDetection [detection ''table'' 0.5 0 0 10 10] [detection ''table'' 0.9 0 0 6 10] =
      [tagYolo (detection ''table'' 0.5 0 0 10 10)]"
    using r c by simp
  then show ?thesis using r by (simp add: source_tagYolo)
qed

text \<open>
  The claim C1 as stated fails at the boundary: the boxes of a lamp and of an accepted
  table overlap with intersection over union exactly \<open>0.3\<close>, the names differ, and
  the lamp is kept.
\<close>

theorem overlap_boundary_counterexample:
  "overlapRatio (detection ''lamp'' 0.9 0 0 3 10) (detection ''table'' 0.9 0 0 10 10) = Fin 0.3 \<and>
   name (detection ''lamp'' 0.9 0 0 3 10) \<noteq> name (detection ''table'' 0.9 0 0 10 10) \<and>
   0.35 < confidence (detection ''table'' 0.9 0 0 10 10) \<and>
   hybridDetection [detection ''table'' 0.9 0 0 10 10] [detection ''lamp'' 0.9 0 0 3 10] =
     [tagYolo (detection ''table'' 0.9 0 0 10 10), tagGoogle (detection ''lamp'' 0.9 0 0 3 10)]"
  by (simp add: fusion_defs)

text \<open>
  The overlap test runs over all detections of the polygon-capable detector, also
  over those that fusion has not accepted: when both detectors report the table, with
  confidence \<open>0.2\<close> and \<open>0.9\<close> and boxes overlapping at \<open>0.6\<close>, fusion returns
  neither.
\<close>

lemma rejected_detection_suppresses:
  "hybridDetection [detection ''table'' 0.2 0 0 10 10] [detection ''table'' 0.9 0 0 6 10] = []"
  by (simp add: fusion_defs)

section \<open>Properties of the intention resolver\<close>

text \<open>
  C5. With an empty drawing path the resolver returns the candidate list it was
  given, unchanged and in its order.
\<close>

theorem empty_path_returns_all: "analyzeUserIntention [] objects = objects"
  by (simp add: analyzeUserIntention_def)

theorem empty_path_returns_all_witness:
  "analyzeUserIntention [] [detection ''lamp'' 0.9 0 0 3 10, detection ''table'' 0.9 0 0 10 10] =
     [detection ''lamp'' 0.9 0 0 3 10, detection ''table'' 0.9 0 0 10 10]"
  using empty_path_returns_all
    [of "[detection ''lamp'' 0.9 0 0 3 10, detection ''table'' 0.9 0 0 10 10]"]
  by simp







lemma mset_binaryInsertionSort:
  "mset (binaryInsertionSort pre rest) = mset pre + mset rest"
proof (induction rest arbitrary: pre)
  case Nil
  then show ?case by simp
next
  case (Cons p rest)
  have "mset (take k pre) + mset (drop k pre) = mset pre" for k
    by (metis append_take_drop_id mset_append)
  then show ?case by (simp add: Cons Let_def add.assoc [symmetric])
qed

lemma countAndMakeRun_mset: "mset (snd (countAndMakeRun xs)) = mset xs"
proof (cases xs rule: countAndMakeRun.cases)
  case (1 a b rest)
  have "mset (take k xs) + mset (drop k xs) = mset xs" for k
    by (metis append_take_drop_id mset_append)
  then show ?thesis using 1 by (simp add: Let_def del: take_Suc_Cons drop_Suc_Cons)
qed simp_all

lemma mset_sortScored: "mset (sortScored xs) = mset xs"
proof -
  have "mset (take k ys) + mset (drop k ys) = mset ys" for k and ys :: "ScoredObject list"
    by (metis append_take_drop_id mset_append)
  then show ?thesis
    by (simp add: sortScored_def Let_def mset_binaryInsertionSort countAndMakeRun_mset)
qed

lemma set_sortScored: "set (sortScored xs) = set xs"
  by (metis mset_sortScored set_mset_mset)










lemma object_scoreObject: "object (scoreObject path obj) = obj"
  by (simp add: scoreObject_def Let_def)

lemma mset_meaningfulObjects:
  "mset (meaningfulObjects path objects) =
     filter_mset (\<lambda>item. js_gt (score item) (Fin 0.3)) (mset (map (scoreObject path) objects))"
  by (simp add: meaningfulObjects_def mset_sortScored del: mset_map)


lemma meaningful_above:
  "s \<in> set (meaningfulObjects path objects) \<Longrightarrow>
   js_gt (score s) (Fin 0.3) \<and> (\<exists>obj \<in> set objects. s = scoreObject path obj)"
  by (auto simp: meaningfulObjects_def set_sortScored)

lemma top_gap_single: "js_gt t (Fin 0.3) \<Longrightarrow> js_gt (js_minus t (Fin 0)) (Fin 0.2)"
  by (cases t) (simp_all add: js_gt_def js_minus_def)

lemma second_or_zero: "js_gt t (Fin 0.3) \<Longrightarrow> js_or_zero t = t"
  by (cases t) (simp_all add: js_gt_def js_or_zero_def)

lemma take_min_length: "take (min n (length xs)) xs = take n xs"
  by (cases "n \<le> length xs") (simp_all add: min_def)

lemma analyze_alt:
  "analyzeUserIntention path objects =
     (if path = [] then objects
      else
        let m = meaningfulObjects path objects
        in if m = [] then []
           else if js_gt (js_minus (score (m ! 0))
                     (if 1 < length m then js_or_zero (score (m ! 1)) else Fin 0)) (Fin 0.2)
                then [object (m ! 0)]
                else map object (take 3 m))"
  by (simp add: analyzeUserIntention_def Let_def take_min_length)

lemma analyze_cases:
  assumes "path \<noteq> []"
  shows "analyzeUserIntention path objects =
     (let m = meaningfulObjects path objects
      in if 2 \<le> length m \<and> js_gt (js_minus (score (m ! 0)) (score (m ! 1))) (Fin 0.2)
         then [object (m ! 0)] else map object (take 3 m))"
proof -
  define m where "m = meaningfulObjects path objects"
  consider "m = []" | x where "m = [x]" | x y zs where "m = x # y # zs"
    by (cases m rule: list.exhaust; cases "tl m") auto
  then show ?thesis
  proof cases
    case 1
    then show ?thesis using assms by (simp add: analyze_alt m_def[symmetric] Let_def)
  next
    case 2
    then have "x \<in> set (meaningfulObjects path objects)" by (simp add: m_def[symmetric])
    then have "js_gt (score x) (Fin 0.3)" using meaningful_above by blast
    then show ?thesis using assms 2
      by (simp add: analyze_alt m_def[symmetric] top_gap_single Let_def)
  next
    case 3
    then have "y \<in> set (meaningfulObjects path objects)" by (simp add: m_def[symmetric])
    then have "js_gt (score y) (Fin 0.3)" using meaningful_above by blast
    then show ?thesis using assms 3
      by (simp add: analyze_alt m_def[symmetric] second_or_zero Let_def)
  qed
qed

lemma sqrt_57600: "sqrt 57600 = 240"
  by (rule real_sqrt_unique) simp_all

lemma sqrt_14400: "sqrt 14400 = 120"
  by (rule real_sqrt_unique) simp_all

lemma bounds_tightPath:
  "getPathBounds tightPath = \<lparr>b_x = 89, b_y = 92, b_width = 72, b_height = 96\<rparr>"
  by (simp add: getPathBounds_def tightPath_def Let_def)

lemma enc_chair: "calculateEnclosureScore tightPath (detection n c 100 100 50 80) = 1"
  by (simp add: calculateEnclosureScore_def isPointInPath_def tightPath_def detection_def
      Let_def upt_rec_numeral)

lemma cont_chair: "calculateContainmentScore tightPath (detection n c 100 100 50 80) = 1"
  by (simp add: calculateContainmentScore_def isPointInPath_def tightPath_def detection_def Let_def)

lemma enc_far: "calculateEnclosureScore tightPath farObj = 0"
  by (simp add: calculateEnclosureScore_def isPointInPath_def tightPath_def detection_def farObj_def
      Let_def upt_rec_numeral)

lemma cont_far: "calculateContainmentScore tightPath farObj = 0"
  by (simp add: calculateContainmentScore_def isPointInPath_def tightPath_def detection_def farObj_def Let_def)

lemma scored_chair:
  "scoreObject tightPath chairObj =
     \<lparr>object = chairObj, score = Fin (6637 / 7200),
      factors = \<lparr>enclosure = 1, distance = 1, size_factor = Fin (125 / 216),
                 confidence_factor = 9 / 10, containment = 1\<rparr>\<rparr>"
  by (simp add: scoreObject_def bounds_tightPath chairObj_def enc_chair cont_chair Let_def js_div_def)
    (simp add: detection_def)


lemma scored_far:
  "scoreObject tightPath farObj =
     \<lparr>object = farObj, score = Fin (157 / 7200),
      factors = \<lparr>enclosure = 0, distance = - 1, size_factor = Fin (125 / 216),
                 confidence_factor = 9 / 10, containment = 0\<rparr>\<rparr>"
  by (simp add: scoreObject_def bounds_tightPath enc_far cont_far Let_def js_div_def)
    (simp add: detection_def farObj_def sqrt_57600 sqrt_14400)





















lemma meaningful_single:
  assumes "filter (\<lambda>obj. js_gt (score (scoreObject path obj)) (Fin 0.3)) objects = [obj]"
  shows "meaningfulObjects path objects = [scoreObject path obj]"
proof -
  have "mset (meaningfulObjects path objects) =
      mset (filter (\<lambda>item. js_gt (score item) (Fin 0.3)) (map (scoreObject path) objects))"
    by (simp add: mset_meaningfulObjects del: mset_map)
  also have "\<dots> = mset (map (scoreObject path)
      (filter (\<lambda>obj. js_gt (score (scoreObject path obj)) (Fin 0.3)) objects))"
    by (simp add: filter_map o_def del: mset_map)
  also have "\<dots> = {#scoreObject path obj#}"
    by (simp add: assms)
  finally show ?thesis by (simp add: mset_single_iff_right)
qed

lemma meaningful_nonempty:
  assumes "obj \<in> set objects" and "js_gt (score (scoreObject path obj)) (Fin 0.3)"
  shows "meaningfulObjects path objects \<noteq> []"
proof -
  have "scoreObject path obj \<in> set (meaningfulObjects path objects)"
    using assms by (simp add: meaningfulObjects_def set_sortScored)
  then show ?thesis by auto
qed

text \<open>
  C10. For a non-empty drawing path, when exactly one candidate scores above the
  cutoff \<open>0.3\<close> (in particular when that score also exceeds \<open>0.5\<close>), the absent
  second-best score counts as \<open>0\<close>, the gap of \<open>0.2\<close> is exceeded, and the resolver
  returns that candidate alone. The resolver never returns the empty list while some
  candidate scores above the cutoff.
\<close>

theorem single_candidate_selected:
  assumes "path \<noteq> []"
  shows
    "(filter (\<lambda>obj. js_gt (score (scoreObject path obj)) (Fin 0.3)) objects = [obj] \<longrightarrow>
        js_gt (js_minus (score (scoreObject path obj)) (Fin 0)) (Fin 0.2) \<and>
        analyzeUserIntention path objects = [obj]) \<and>
     ((\<exists>obj \<in> set objects. js_gt (score (scoreObject path obj)) (Fin 0.3)) \<longrightarrow>
        analyzeUserIntention path objects \<noteq> [])"
proof (intro conjI impI)
  assume one: "filter (\<lambda>obj. js_gt (score (scoreObject path obj)) (Fin 0.3)) objects = [obj]"
  then have "obj \<in> set (filter (\<lambda>obj. js_gt (score (scoreObject path obj)) (Fin 0.3)) objects)"
    by simp
  then have "js_gt (score (scoreObject path obj)) (Fin 0.3)" by simp
  then show "js_gt (js_minus (score (scoreObject path obj)) (Fin 0)) (Fin 0.2)"
    by (rule top_gap_single)
  show "analyzeUserIntention path objects = [obj]"
    using assms by (simp add: analyze_cases meaningful_single [OF one] object_scoreObject)
next
  assume "\<exists>obj \<in> set objects. js_gt (score (scoreObject path obj)) (Fin 0.3)"
  then have "meaningfulObjects path objects \<noteq> []"
    using meaningful_nonempty by blast
  then show "analyzeUserIntention path objects \<noteq> []"
    using assms by (simp add: analyze_cases Let_def)
qed

theorem single_candidate_selected_witness:
  "tightPath \<noteq> [] \<and>
   filter (\<lambda>obj. js_gt (score (scoreObject tightPath obj)) (Fin 0.3)) [farObj, chairObj] = [chairObj] \<and>
   js_gt (score (scoreObject tightPath chairObj)) (Fin 0.5) \<and>
   analyzeUserIntention tightPath [farObj, chairObj] = [chairObj]"
proof -
  have p: "tightPath \<noteq> []" by (simp add: tightPath_def)
  have f: "filter (\<lambda>obj. js_gt (score (scoreObject tightPath obj)) (Fin 0.3)) [farObj, chairObj] =
      [chairObj]"
    by (simp add: scored_chair scored_far js_gt_def)
  from single_candidate_selected [OF p, of "[farObj, chairObj]" chairObj] f p show ?thesis
    by (simp add: scored_chair js_gt_def)
qed

lemma enclosure_bounds:
  "0 \<le> calculateEnclosureScore path obj \<and> calculateEnclosureScore path obj \<le> 1"
proof -
  have "length (filter P (List.product [0..<15] [0..<15])) \<le> 225" for P :: "nat \<times> nat \<Rightarrow> bool"
    using length_filter_le [of P "List.product [0..<15] [0..<15]"] by simp
  then show ?thesis
    by (simp add: calculateEnclosureScore_def Let_def)
qed

lemma containment_bounds:
  "0 \<le> calculateContainmentScore path obj \<and> calculateContainmentScore path obj \<le> 1"
proof -
  have "length (filter P [a, b, c, d]) \<le> 4" for P :: "point \<Rightarrow> bool" and a b c d
    using length_filter_le [of P "[a, b, c, d]"] by simp
  then show ?thesis
    by (simp add: calculateContainmentScore_def Let_def del: filter.simps)
qed

lemma Min_le_Max_list: "xs \<noteq> [] \<Longrightarrow> Min (set xs) \<le> Max (set xs)"
  by (simp add: Min_in)

lemma pathBounds_nonneg:
  "0 \<le> b_width (getPathBounds path) \<and> 0 \<le> b_height (getPathBounds path)"
proof (cases "path = []")
  case True
  then show ?thesis by (simp add: getPathBounds_def)
next
  case False
  then have "Min (set (map fst path)) \<le> Max (set (map fst path))"
    and "Min (set (map snd path)) \<le> Max (set (map snd path))"
    by (simp_all only: Min_le_Max_list map_is_Nil_conv not_False_eq_True)
  then show ?thesis using False by (simp add: getPathBounds_def Let_def)
qed

lemma size_ratio_bounds:
  assumes "0 \<le> a" and "0 \<le> b" and "0 < a \<or> 0 < b"
  shows "\<exists>r. js_div (min a b) (max a b) = Fin r \<and> 0 \<le> r \<and> r \<le> 1"
proof -
  have "0 < max a b" using assms by (auto simp: max_def)
  moreover have "0 \<le> min a b" "min a b \<le> max a b" using assms by (auto simp: min_def max_def)
  ultimately show ?thesis by (simp add: js_div_def)
qed

text \<open>
  C3, as amended. For a non-empty drawing path and every candidate, the enclosure and
  containment factors lie in \<open>[0, 1]\<close>; the confidence factor is the candidate's own
  confidence; the distance factor is \<open>1\<close> minus the Euclidean distance between the
  centre of the path's bounding box and the candidate's centre, divided by the larger
  of the bounding box's diagonal and \<open>1\<close>, and it is at most \<open>1\<close>; the size factor
  lies in \<open>[0, 1]\<close> when the candidate's width and height are not negative and one of
  the two areas is positive.
\<close>

theorem scoring_factors:
  assumes "path \<noteq> []"
  shows
    "0 \<le> enclosure (factors (scoreObject path obj)) \<and>
     enclosure (factors (scoreObject path obj)) \<le> 1 \<and>
     0 \<le> containment (factors (scoreObject path obj)) \<and>
     containment (factors (scoreObject path obj)) \<le> 1 \<and>
     confidence_factor (factors (scoreObject path obj)) = confidence obj \<and>
     distance (factors (scoreObject path obj)) =
       1 - sqrt ((b_x (getPathBounds path) + b_width (getPathBounds path) / 2
                    - (xpos obj + width obj / 2))\<^sup>2 +
                 (b_y (getPathBounds path) + b_height (getPathBounds path) / 2
                    - (ypos obj + height obj / 2))\<^sup>2)
           / max (sqrt ((b_width (getPathBounds path))\<^sup>2 + (b_height (getPathBounds path))\<^sup>2)) 1 \<and>
     distance (factors (scoreObject path obj)) \<le> 1 \<and>
     (0 \<le> width obj \<and> 0 \<le> height obj \<and>
      (0 < b_width (getPathBounds path) * b_height (getPathBounds path) \<or>
       0 < width obj * height obj) \<longrightarrow>
        (\<exists>r. size_factor (factors (scoreObject path obj)) = Fin r \<and> 0 \<le> r \<and> r \<le> 1))"
proof -
  have d: "distance (factors (scoreObject path obj)) \<le> 1"
    by (simp add: scoreObject_def Let_def)
  have s: "\<exists>r. size_factor (factors (scoreObject path obj)) = Fin r \<and> 0 \<le> r \<and> r \<le> 1"
    if "0 \<le> width obj" "0 \<le> height obj"
      "0 < b_width (getPathBounds path) * b_height (getPathBounds path) \<or> 0 < width obj * height obj"
  proof -
    have "0 \<le> b_width (getPathBounds path) * b_height (getPathBounds path)"
      using pathBounds_nonneg [of path] by simp
    moreover have "0 \<le> width obj * height obj" using that by simp
    ultimately show ?thesis
      using that(3) size_ratio_bounds by (simp add: scoreObject_def Let_def)
  qed
  show ?thesis
    using enclosure_bounds [of path obj] containment_bounds [of path obj] d s
    by (simp add: scoreObject_def Let_def)
qed

theorem scoring_factors_witness:
  "tightPath \<noteq> [] \<and>
   factors (scoreObject tightPath chairObj) =
     \<lparr>enclosure = 1, distance = 1, size_factor = Fin (125 / 216),
      confidence_factor = 9 / 10, containment = 1\<rparr>"
proof -
  have p: "tightPath \<noteq> []" by (simp add: tightPath_def)
  from scoring_factors [OF p, of chairObj] p show ?thesis
    by (simp add: scored_chair)
qed

text \<open>
  The claim C3 as stated fails: for a candidate two diagonals away from the centre of
  the path's bounding box the distance factor is \<open>-1\<close>.
\<close>

theorem distance_factor_counterexample:
  "distance (factors (scoreObject tightPath farObj)) = - 1"
  by (simp add: scored_far)

section \<open>Properties of the replacement workflows\<close>

lemmas workflow_defs = replaceObjectStepByStep_def replaceObjectWithSceneDiff_def
  replaceObjectWithSceneDiff_bundle_def sceneFailure_def replaceObjectTwoStep_def
  removeObjectWithInpainting_def generateAndPlaceObject_def replaceRoute_def
  analyzeObjectForModification_def falsy_def render_def Let_def

text \<open>
  C4, as amended. When the generation of the replacement fails after the original
  object has been removed, which happens in \<open>replaceObjectTwoStep\<close> only, the workflow
  throws \<open>Object replacement failed: Object generation failed: ...\<close> and the route
  answers with status 500 and the three texts \<open>message\<close>, \<open>error\<close> and \<open>details\<close>:
  the cleaned image is not returned. In the workflows that do not remove the object
  first, a failure of the generation at the request made gives, from
  \<open>replaceObjectStepByStep\<close>, a failure whose error starts with
  \<open>Generation failed:\<close> and which carries the image of the cropped object and no
  final image, and from \<open>replaceObjectWithSceneDiff\<close>, in the server's copy and in the
  bundle's, a failure that carries the error message only.
\<close>

theorem generation_failure_result:
  "(generate removalPrompt = Inr (Some cleaned) \<and> cleaned \<noteq> [] \<and>
    generate (enhancedPrompt (mod_objectName request) (modificationPrompt request)) = Inl err \<longrightarrow>
      removeObjectWithInpainting generate (mod_originalImageUrl request) (objectBounds request)
          (objectMask request) =
        Inr \<lparr>removal_success = True, cleanedImageUrl = cleaned,
             removal_method = Some ''OpenAI Inpainting''\<rparr> \<and>
      replaceObjectTwoStep generate request =
        Inl (''Object replacement failed: '' @ ''Object generation failed: '' @ err)) \<and>
   (generate removalPrompt = Inr (Some cleaned) \<and> cleaned \<noteq> [] \<and>
    generate (enhancedPrompt (mod_objectName request) (modificationPrompt request)) = Inr url \<and>
    falsy url \<longrightarrow>
      replaceObjectTwoStep generate request =
        Inl (''Object replacement failed: '' @ ''Object generation failed: '' @
             ''No object image URL returned from DALL-E 3'')) \<and>
   (userPrompt \<noteq> [] \<and> objName \<noteq> [] \<and> imageUrl \<noteq> [] \<and>
    generate removalPrompt = Inr (Some cleaned) \<and> cleaned \<noteq> [] \<and>
    generate (enhancedPrompt objName (analyzeObjectForModification chat objName userPrompt)) =
      Inl err \<longrightarrow>
      replaceRoute chat generate objectId
          \<lparr>body_modificationPrompt = Some userPrompt, body_objectName = Some objName,
           body_originalImageUrl = Some imageUrl, body_objectBounds = bounds,
           body_objectMask = objMask\<rparr> =
        ServerError ''Failed to replace object''
          (''Object replacement failed: '' @ ''Object generation failed: '' @ err)
          ''Two-step replacement process failed'') \<and>
   (crop_success (cropObject \<lparr>req_imageUrl = imageUrl, req_segmentationMask = segMask\<rparr>) \<and>
    croppedImageBase64 (cropObject \<lparr>req_imageUrl = imageUrl, req_segmentationMask = segMask\<rparr>) =
      Some cropped \<and> cropped \<noteq> [] \<and>
    (\<not> gen_success (generateReplacement
         \<lparr>croppedObjectImage = cropped, replacementPrompt = prompt,
          originalImageUrl = Some imageUrl\<rparr>) \<or>
     falsy (generatedImageBase64 (generateReplacement
         \<lparr>croppedObjectImage = cropped, replacementPrompt = prompt,
          originalImageUrl = Some imageUrl\<rparr>))) \<longrightarrow>
      replaceObjectStepByStep cropObject generateReplacement imageUrl segMask prompt =
        \<lparr>success = False, finalImageBase64 = None, croppedObject = Some cropped,
         generatedReplacement = None, boundingBox = None, revisedPrompt = None,
         error = Some (''Generation failed: '' @ render (gen_error (generateReplacement
           \<lparr>croppedObjectImage = cropped, replacementPrompt = prompt,
            originalImageUrl = Some imageUrl\<rparr>)))\<rparr>) \<and>
   (fetchOriginal calls imageUrl = Inr original \<and>
    imageMetadata calls original = Inr dimensions \<and>
    (\<not> gen_success (generateSceneReplacement calls
         \<lparr>scene_replacementPrompt = prompt, originalImageBase64 = original,
          objectName = objName, scene_croppedObjectImage = [],
          scene_originalImageUrl = imageUrl\<rparr>) \<or>
     falsy (generatedImageBase64 (generateSceneReplacement calls
         \<lparr>scene_replacementPrompt = prompt, originalImageBase64 = original,
          objectName = objName, scene_croppedObjectImage = [],
          scene_originalImageUrl = imageUrl\<rparr>))) \<longrightarrow>
      replaceObjectWithSceneDiff calls num imageUrl segMask prompt objName =
        \<lparr>sd_success = False, sd_finalImageBase64 = None, originalScene = None,
         generatedScene = None, extractedDifferences = None, sd_revisedPrompt = None,
         sd_error = Some (''Scene generation failed: '' @
           render (gen_error (generateSceneReplacement calls
             \<lparr>scene_replacementPrompt = prompt, originalImageBase64 = original,
              objectName = objName, scene_croppedObjectImage = [],
              scene_originalImageUrl = imageUrl\<rparr>)))\<rparr>) \<and>
   (bundle_fetchOriginal bundle imageUrl = Inr original \<and>
    (\<not> gen_success (bundle_generateSceneReplacement bundle
         \<lparr>scene_replacementPrompt = prompt, originalImageBase64 = original,
          objectName = objName, scene_croppedObjectImage = [],
          scene_originalImageUrl = imageUrl\<rparr>) \<or>
     falsy (generatedImageBase64 (bundle_generateSceneReplacement bundle
         \<lparr>scene_replacementPrompt = prompt, originalImageBase64 = original,
          objectName = objName, scene_croppedObjectImage = [],
          scene_originalImageUrl = imageUrl\<rparr>))) \<longrightarrow>
      replaceObjectWithSceneDiff_bundle bundle imageUrl segMask prompt objName =
        \<lparr>sd_success = False, sd_finalImageBase64 = None, originalScene = None,
         generatedScene = None, extractedDifferences = None, sd_revisedPrompt = None,
         sd_error = Some (''Scene generation failed: '' @
           render (gen_error (bundle_generateSceneReplacement bundle
             \<lparr>scene_replacementPrompt = prompt, originalImageBase64 = original,
              objectName = objName, scene_croppedObjectImage = [],
              scene_originalImageUrl = imageUrl\<rparr>)))\<rparr>)"
proof (intro conjI impI)
  assume "generate removalPrompt = Inr (Some cleaned) \<and> cleaned \<noteq> [] \<and>
    generate (enhancedPrompt (mod_objectName request) (modificationPrompt request)) = Inl err"
  then show "removeObjectWithInpainting generate (mod_originalImageUrl request)
        (objectBounds request) (objectMask request) =
      Inr \<lparr>removal_success = True, cleanedImageUrl = cleaned,
           removal_method = Some ''OpenAI Inpainting''\<rparr>"
    and "replaceObjectTwoStep generate request =
      Inl (''Object replacement failed: '' @ ''Object generation failed: '' @ err)"
    by (simp_all add: workflow_defs)
next
  assume "generate removalPrompt = Inr (Some cleaned) \<and> cleaned \<noteq> [] \<and>
    generate (enhancedPrompt (mod_objectName request) (modificationPrompt request)) = Inr url \<and>
    falsy url"
  then show "replaceObjectTwoStep generate request =
      Inl (''Object replacement failed: '' @ ''Object generation failed: '' @
           ''No object image URL returned from DALL-E 3'')"
    by (auto simp: workflow_defs)
next
  assume "userPrompt \<noteq> [] \<and> objName \<noteq> [] \<and> imageUrl \<noteq> [] \<and>
    generate removalPrompt = Inr (Some cleaned) \<and> cleaned \<noteq> [] \<and>
    generate (enhancedPrompt objName (analyzeObjectForModification chat objName userPrompt)) =
      Inl err"
  then show "replaceRoute chat generate objectId
        \<lparr>body_modificationPrompt = Some userPrompt, body_objectName = Some objName,
         body_originalImageUrl = Some imageUrl, body_objectBounds = bounds,
         body_objectMask = objMask\<rparr> =
      ServerError ''Failed to replace object''
        (''Object replacement failed: '' @ ''Object generation failed: '' @ err)
        ''Two-step replacement process failed''"
    by (simp add: replaceRoute_def replaceObjectTwoStep_def removeObjectWithInpainting_def
        generateAndPlaceObject_def falsy_def render_def Let_def)
next
  assume "crop_success (cropObject \<lparr>req_imageUrl = imageUrl, req_segmentationMask = segMask\<rparr>) \<and>
    croppedImageBase64 (cropObject \<lparr>req_imageUrl = imageUrl, req_segmentationMask = segMask\<rparr>) =
      Some cropped \<and> cropped \<noteq> [] \<and>
    (\<not> gen_success (generateReplacement
         \<lparr>croppedObjectImage = cropped, replacementPrompt = prompt,
          originalImageUrl = Some imageUrl\<rparr>) \<or>
     falsy (generatedImageBase64 (generateReplacement
         \<lparr>croppedObjectImage = cropped, replacementPrompt = prompt,
          originalImageUrl = Some imageUrl\<rparr>)))"
  then show "replaceObjectStepByStep cropObject generateReplacement imageUrl segMask prompt =
      \<lparr>success = False, finalImageBase64 = None, croppedObject = Some cropped,
       generatedReplacement = None, boundingBox = None, revisedPrompt = None,
       error = Some (''Generation failed: '' @ render (gen_error (generateReplacement
         \<lparr>croppedObjectImage = cropped, replacementPrompt = prompt,
          originalImageUrl = Some imageUrl\<rparr>)))\<rparr>"
    by (auto simp: replaceObjectStepByStep_def falsy_def render_def Let_def)
next
  assume "fetchOriginal calls imageUrl = Inr original \<and>
    imageMetadata calls original = Inr dimensions \<and>
    (\<not> gen_success (generateSceneReplacement calls
         \<lparr>scene_replacementPrompt = prompt, originalImageBase64 = original,
          objectName = objName, scene_croppedObjectImage = [],
          scene_originalImageUrl = imageUrl\<rparr>) \<or>
     falsy (generatedImageBase64 (generateSceneReplacement calls
         \<lparr>scene_replacementPrompt = prompt, originalImageBase64 = original,
          objectName = objName, scene_croppedObjectImage = [],
          scene_originalImageUrl = imageUrl\<rparr>)))"
  then show "replaceObjectWithSceneDiff calls num imageUrl segMask prompt objName =
      \<lparr>sd_success = False, sd_finalImageBase64 = None, originalScene = None,
       generatedScene = None, extractedDifferences = None, sd_revisedPrompt = None,
       sd_error = Some (''Scene generation failed: '' @
         render (gen_error (generateSceneReplacement calls
           \<lparr>scene_replacementPrompt = prompt, originalImageBase64 = original,
            objectName = objName, scene_croppedObjectImage = [],
            scene_originalImageUrl = imageUrl\<rparr>)))\<rparr>"
    by (auto simp: replaceObjectWithSceneDiff_def sceneFailure_def Let_def)
next
  assume "bundle_fetchOriginal bundle imageUrl = Inr original \<and>
    (\<not> gen_success (bundle_generateSceneReplacement bundle
         \<lparr>scene_replacementPrompt = prompt, originalImageBase64 = original,
          objectName = objName, scene_croppedObjectImage = [],
          scene_originalImageUrl = imageUrl\<rparr>) \<or>
     falsy (generatedImageBase64 (bundle_generateSceneReplacement bundle
         \<lparr>scene_replacementPrompt = prompt, originalImageBase64 = original,
          objectName = objName, scene_croppedObjectImage = [],
          scene_originalImageUrl = imageUrl\<rparr>)))"
  then show "replaceObjectWithSceneDiff_bundle bundle imageUrl segMask prompt objName =
      \<lparr>sd_success = False, sd_finalImageBase64 = None, originalScene = None,
       generatedScene = None, extractedDifferences = None, sd_revisedPrompt = None,
       sd_error = Some (''Scene generation failed: '' @
         render (gen_error (bundle_generateSceneReplacement bundle
           \<lparr>scene_replacementPrompt = prompt, originalImageBase64 = original,
            objectName = objName, scene_croppedObjectImage = [],
            scene_originalImageUrl = imageUrl\<rparr>)))\<rparr>"
    by (auto simp: replaceObjectWithSceneDiff_bundle_def sceneFailure_def Let_def)
qed

text \<open>
  The generator paints the cleaned room and refuses the prompt for the armchair; the
  chat model gives no prompt, so the user's is used.
\<close>

lemma chair_prompt: "enhancedPrompt ''chair'' ''a red armchair'' \<noteq> removalPrompt"
  by (simp add: enhancedPrompt_def removalPrompt_def)

theorem generation_failure_result_witness:
  "replaceRoute silentChat removalOnlyGenerator 7 chairBody =
     ServerError ''Failed to replace object''
       ''Object replacement failed: Object generation failed: Billing hard limit has been reached''
       ''Two-step replacement process failed'' \<and>
   replaceObjectStepByStep cropSucceeds generationFails ''room.jpg'' [10, 10, 60, 10, 60, 90]
       ''a red armchair'' =
     \<lparr>success = False, finalImageBase64 = None, croppedObject = Some ''iVBORw0KGgo='',
      generatedReplacement = None, boundingBox = None, revisedPrompt = None,
      error = Some ''Generation failed: No image generated''\<rparr> \<and>
   (\<forall>num. replaceObjectWithSceneDiff failingSceneCalls num ''room.jpg'' [10, 10, 60, 10, 60, 90]
       ''a red armchair'' ''chair'' =
     \<lparr>sd_success = False, sd_finalImageBase64 = None, originalScene = None,
      generatedScene = None, extractedDifferences = None, sd_revisedPrompt = None,
      sd_error = Some ''Scene generation failed: No image generated''\<rparr>) \<and>
   replaceObjectWithSceneDiff_bundle failingBundleCalls ''room.jpg'' [10, 10, 60, 10, 60, 90]
       ''a red armchair'' ''chair'' =
     \<lparr>sd_success = False, sd_finalImageBase64 = None, originalScene = None,
      generatedScene = None, extractedDifferences = None, sd_revisedPrompt = None,
      sd_error = Some ''Scene generation failed: No image generated''\<rparr>"
proof -
  have g: "removalOnlyGenerator removalPrompt = Inr (Some ''https://images.example/cleaned.png'')"
    "removalOnlyGenerator (enhancedPrompt ''chair''
        (analyzeObjectForModification silentChat ''chair'' ''a red armchair'')) =
      Inl ''Billing hard limit has been reached''"
    using chair_prompt
    by (simp_all add: removalOnlyGenerator_def analyzeObjectForModification_def silentChat_def
        falsy_def)
  have a: "replaceRoute silentChat removalOnlyGenerator 7 chairBody =
     ServerError ''Failed to replace object''
       ''Object replacement failed: Object generation failed: Billing hard limit has been reached''
       ''Two-step replacement process failed''"
    using g generation_failure_result
      [where generate = removalOnlyGenerator and cleaned = "''https://images.example/cleaned.png''"
        and chat = silentChat and userPrompt = "''a red armchair''" and objName = "''chair''"
        and imageUrl = "''https://images.example/room.jpg''"
        and err = "''Billing hard limit has been reached''" and objectId = 7
        and bounds = "Some \<lparr>b_x = 100, b_y = 100, b_width = 50, b_height = 80\<rparr>"
        and objMask = None]
    by (simp add: chairBody_def)
  have b: "replaceObjectStepByStep cropSucceeds generationFails ''room.jpg'' [10, 10, 60, 10, 60, 90]
       ''a red armchair'' =
     \<lparr>success = False, finalImageBase64 = None, croppedObject = Some ''iVBORw0KGgo='',
      generatedReplacement = None, boundingBox = None, revisedPrompt = None,
      error = Some ''Generation failed: No image generated''\<rparr>"
    by (simp add: workflow_defs cropSucceeds_def generationFails_def)
  have c: "replaceObjectWithSceneDiff failingSceneCalls num ''room.jpg'' [10, 10, 60, 10, 60, 90]
       ''a red armchair'' ''chair'' =
     \<lparr>sd_success = False, sd_finalImageBase64 = None, originalScene = None,
      generatedScene = None, extractedDifferences = None, sd_revisedPrompt = None,
      sd_error = Some ''Scene generation failed: No image generated''\<rparr>" for num
    by (simp add: workflow_defs failingSceneCalls_def generationFails_def)
  have d: "replaceObjectWithSceneDiff_bundle failingBundleCalls ''room.jpg'' [10, 10, 60, 10, 60, 90]
       ''a red armchair'' ''chair'' =
     \<lparr>sd_success = False, sd_finalImageBase64 = None, originalScene = None,
      generatedScene = None, extractedDifferences = None, sd_revisedPrompt = None,
      sd_error = Some ''Scene generation failed: No image generated''\<rparr>"
    by (simp add: workflow_defs failingBundleCalls_def generationFails_def)
  show ?thesis using a b c d by simp
qed

text \<open>
  The claim C4 as stated fails: the removal returns the cleaned image, the generation
  of the armchair throws, and neither the error that \<open>replaceObjectTwoStep\<close> throws
  nor the answer of the route carries the cleaned image.
\<close>

theorem cleaned_image_dropped_counterexample:
  "removeObjectWithInpainting removalOnlyGenerator (mod_originalImageUrl chairRequest)
       (objectBounds chairRequest) (objectMask chairRequest) =
     Inr \<lparr>removal_success = True, cleanedImageUrl = ''https://images.example/cleaned.png'',
          removal_method = Some ''OpenAI Inpainting''\<rparr> \<and>
   replaceObjectTwoStep removalOnlyGenerator chairRequest =
     Inl ''Object replacement failed: Object generation failed: Billing hard limit has been reached'' \<and>
   replaceRoute silentChat removalOnlyGenerator 7 chairBody =
     ServerError ''Failed to replace object''
       ''Object replacement failed: Object generation failed: Billing hard limit has been reached''
       ''Two-step replacement process failed''"
  using chair_prompt
  by (simp add: workflow_defs removalOnlyGenerator_def silentChat_def chairRequest_def
      chairBody_def)

section \<open>Properties of the masks\<close>

text \<open>
  C7. The mask that \<open>createSegmentationMaskSVG\<close> builds from a coordinate list is one
  \<open>path\<close> element with the attributes \<open>d\<close>, \<open>fill\<close> and \<open>stroke\<close>: it names no fill
  rule, whereas the mask of \<open>extractObjectUsingSegmentation\<close> names \<open>evenodd\<close>.
\<close>

theorem mask_without_fill_rule:
  "map (\<lambda>e. (svg_tag e, map fst (svg_attributes e)))
       (svg_children (createSegmentationMaskSVG num segmentationCoords w h)) =
     [(''path'', [''d'', ''fill'', ''stroke''])] \<and>
   map (\<lambda>e. map_of (svg_attributes e) ''fill-rule'')
       (svg_children (createSegmentationMaskSVG num segmentationCoords w h)) = [None] \<and>
   map (\<lambda>e. map_of (svg_attributes e) ''fill-rule'')
       (svg_children (extractionMaskSVG num segmentationPath w h)) = [Some ''evenodd'']"
  by (simp add: createSegmentationMaskSVG_def extractionMaskSVG_def Let_def)

section \<open>Properties of cropping\<close>

lemma js_max_Fin: "js_max (Fin a) (Fin b) = Fin (max a b)"
  by (simp add: js_max_def max_def)

lemma js_min_Fin: "js_min (Fin a) (Fin b) = Fin (min a b)"
  by (simp add: js_min_def min_def)

lemma Math_min_Fin: "xs \<noteq> [] \<Longrightarrow> Math_min (map Fin xs) = Fin (Min (set xs))"
proof (induction xs)
  case Nil
  then show ?case by simp
next
  case (Cons a xs)
  show ?case
  proof (cases "xs = []")
    case True
    then show ?thesis by (simp add: Math_min_def js_min_def)
  next
    case False
    with Cons have "Math_min (map Fin xs) = Fin (Min (set xs))" by simp
    then have "Math_min (map Fin (a # xs)) = Fin (min a (Min (set xs)))"
      by (simp add: Math_min_def js_min_Fin)
    then show ?thesis using False by simp
  qed
qed

lemma Math_max_Fin: "xs \<noteq> [] \<Longrightarrow> Math_max (map Fin xs) = Fin (Max (set xs))"
proof (induction xs)
  case Nil
  then show ?case by simp
next
  case (Cons a xs)
  show ?case
  proof (cases "xs = []")
    case True
    then show ?thesis by (simp add: Math_max_def js_max_def)
  next
    case False
    with Cons have "Math_max (map Fin xs) = Fin (Max (set xs))" by simp
    then have "Math_max (map Fin (a # xs)) = Fin (max a (Max (set xs)))"
      by (simp add: Math_max_def js_max_Fin)
    then show ?thesis using False by simp
  qed
qed

lemma cropRect_Fin:
  assumes "xCoords points = map Fin xs" and "yCoords points = map Fin ys"
    and "xs \<noteq> []" and "ys \<noteq> []"
  shows "cropRect w h points =
     \<lparr>left = Fin (max 0 (of_int \<lfloor>Min (set xs)\<rfloor>)),
      top = Fin (max 0 (of_int \<lfloor>Min (set ys)\<rfloor>)),
      cropWidth = Fin (min (real w) (of_int \<lceil>Max (set xs)\<rceil>) - max 0 (of_int \<lfloor>Min (set xs)\<rfloor>)),
      cropHeight = Fin (min (real h) (of_int \<lceil>Max (set ys)\<rceil>) - max 0 (of_int \<lfloor>Min (set ys)\<rfloor>))\<rparr>"
  using assms
  by (simp add: cropRect_def Let_def Math_min_Fin Math_max_Fin js_max_Fin js_min_Fin js_minus_def)

lemma clamp_meets:
  fixes mn mx :: real
  assumes "mn \<le> mx" and "mn \<le> real w" and "0 \<le> mx"
  shows "max 0 (of_int \<lfloor>mn\<rfloor>) \<le> real w \<and>
         0 \<le> min (real w) (of_int \<lceil>mx\<rceil>) - max 0 (of_int \<lfloor>mn\<rfloor>)"
proof -
  have a: "of_int \<lfloor>mn\<rfloor> \<le> mn" and b: "mx \<le> of_int \<lceil>mx\<rceil>" by linarith+
  have c: "(0::real) \<le> of_int \<lceil>mx\<rceil>" using assms(3) b by linarith
  show ?thesis using a b c assms by (simp add: max_def min_def) linarith
qed

text \<open>
  Where the bounding box of the polygon meets the image, the rectangle lies within the
  image and its width and height are not negative.
\<close>

lemma cropRect_within_image:
  assumes "xCoords points = map Fin xs" and "yCoords points = map Fin ys"
    and "xs \<noteq> []" and "ys \<noteq> []"
    and "Min (set xs) \<le> real w" and "0 \<le> Max (set xs)"
    and "Min (set ys) \<le> real h" and "0 \<le> Max (set ys)"
  shows "\<exists>l t cw ch.
      cropRect w h points = \<lparr>left = Fin l, top = Fin t, cropWidth = Fin cw, cropHeight = Fin ch\<rparr> \<and>
      0 \<le> l \<and> 0 \<le> cw \<and> l + cw \<le> real w \<and> 0 \<le> t \<and> 0 \<le> ch \<and> t + ch \<le> real h"
proof -
  have mx: "Min (set xs) \<le> Max (set xs)" using assms(3) by (simp add: Min_in)
  have my: "Min (set ys) \<le> Max (set ys)" using assms(4) by (simp add: Min_in)
  show ?thesis
    using clamp_meets [OF mx assms(5,6)] clamp_meets [OF my assms(7,8)]
    by (simp add: cropRect_Fin [OF assms(1-4)])
qed


end
